theory Spec2Isabelle
  imports Main "HOL-Library.Sublist" "HOL-Library.Char_ord" "HOL-Library.List_Lexorder"
    "HOL-Library.Extended_Nat"
begin

section \<open>Shared model of the host: paths, file system, JavaScript errors\<close>

text \<open>
  The scripts of the repository are Node.js programs that orchestrate external tools over
  the file system. A path is the list of its components (\<open>path.join\<close> is list append,
  the working directory is the empty path), so that "is below" is the prefix order on
  component lists. The file system is an association list from paths to nodes, in the
  order in which \<open>fs.readdirSync\<close> reports the entries. A node carries what
  \<open>fs.statSync\<close> and \<open>fs.readFileSync\<close> return: the kind, the modification time in
  milliseconds, and for a file its size and its text. Strings are lists of 8-bit
  characters; the names the scripts handle (module names, file names) are ASCII.
\<close>

type_synonym path = "string list"

datatype node =
    Dir (mtimeMs: int)
  | File (mtimeMs: int) (fsize: nat) (content: string)

type_synonym fs = "(path \<times> node) list"

datatype js_error =
    ReferenceError
  | TypeError
  | ENOENT
  | ENOTDIR
  | EISDIR
  | ERR_INVALID_URL
  | HttpError nat
  | RequestFailed
  | StreamFailed
  | ToolError
  | JdkNotFound
  | JlinkNotFound

definition existsSync :: "fs \<Rightarrow> path \<Rightarrow> bool" where
  "existsSync fs p = (map_of fs p \<noteq> None)"

definition isDirectory :: "fs \<Rightarrow> path \<Rightarrow> bool" where
  "isDirectory fs p = (case map_of fs p of Some (Dir _) \<Rightarrow> True | _ \<Rightarrow> False)"


text \<open>\<open>fs.readdirSync(d)\<close>: the names of the entries whose parent is \<open>d\<close>; it throws
  when \<open>d\<close> is missing or is not a directory.\<close>

definition entries :: "fs \<Rightarrow> path \<Rightarrow> string list" where
  "entries fs d = map (\<lambda>(p, n). last p) (filter (\<lambda>(p, n). p \<noteq> [] \<and> butlast p = d) fs)"

definition readdirSync :: "fs \<Rightarrow> path \<Rightarrow> js_error + string list" where
  "readdirSync fs d =
     (case map_of fs d of
        None \<Rightarrow> Inl ENOENT
      | Some (File _ _ _) \<Rightarrow> Inl ENOTDIR
      | Some (Dir _) \<Rightarrow> Inr (entries fs d))"

text \<open>\<open>fs.rmSync(p, { recursive: true, force: true })\<close> and \<open>fs.unlinkSync(p)\<close>.\<close>

definition rmSync :: "fs \<Rightarrow> path \<Rightarrow> fs" where
  "rmSync fs p = filter (\<lambda>(q, n). \<not> prefix p q) fs"

definition unlinkSync :: "fs \<Rightarrow> path \<Rightarrow> fs" where
  "unlinkSync fs p = filter (\<lambda>(q, n). q \<noteq> p) fs"

text \<open>A JavaScript \<open>Set\<close> keeps its members in insertion order; \<open>add\<close> of a member
  already present changes nothing.\<close>

definition set_add :: "'a list \<Rightarrow> 'a \<Rightarrow> 'a list" where
  "set_add s x = (if x \<in> set s then s else s @ [x])"

section \<open>build-jre-all-platforms.js: the JDK version\<close>

definition JDK_DIR :: path where
  "JDK_DIR = [''jdk-downloads'']"

definition isDigit :: "char \<Rightarrow> bool" where
  "isDigit c = (c \<in> set ''0123456789'')"

text \<open>\<open>dir.match(/^jdk-(\d+)/)\<close>: the capture group is the longest run of decimal digits
  after the prefix, and the match fails when that run is empty.\<close>

definition match_jdk :: "string \<Rightarrow> string option" where
  "match_jdk d =
     (if prefix ''jdk-'' d \<and> takeWhile isDigit (drop 4 d) \<noteq> []
      then Some (takeWhile isDigit (drop 4 d)) else None)"

text \<open>
  A JavaScript Number is an IEEE 754 double. The Numbers that arise in this script are
  the values of \<open>parseInt\<close> on a run of decimal digits: the double nearest to the
  natural number that the digits denote (round to nearest, ties to even). Such a double is
  a natural number with at most 53 significant bits, or \<open>+Infinity\<close>, here \<open>\<infinity>\<close>, from
  \<open>2^1024 - 2^970\<close> on. Below \<open>2^53\<close> nothing is rounded.
\<close>

fun bitlen :: "nat \<Rightarrow> nat" where
  "bitlen n = (if n = 0 then 0 else Suc (bitlen (n div 2)))"

declare bitlen.simps [simp del]

definition toNumber :: "nat \<Rightarrow> enat" where
  "toNumber n =
     (if n < 2 ^ 53 then enat n
      else (let e = bitlen n - 53;
                q = n div 2 ^ e;
                r = n mod 2 ^ e;
                m = (if 2 ^ e < 2 * r \<or> (2 * r = 2 ^ e \<and> odd q) then q + 1 else q)
            in if 2 ^ 1024 \<le> m * 2 ^ e then \<infinity> else enat (m * 2 ^ e)))"

text \<open>\<open>parseInt\<close> is only ever applied to a captured run of decimal digits.\<close>

definition digitVal :: "char \<Rightarrow> nat" where
  "digitVal c = of_char c - 48"

definition parseInt :: "string \<Rightarrow> enat" where
  "parseInt s = toNumber (foldl (\<lambda>a c. 10 * a + digitVal c) 0 s)"

text \<open>\<open>versions\<close> is the \<open>Set\<close> filled by the \<open>forEach\<close> over the directories.\<close>

definition collectVersions :: "string list \<Rightarrow> string list" where
  "collectVersions dirs =
     foldl (\<lambda>vs d. case match_jdk d of Some v \<Rightarrow> set_add vs v | None \<Rightarrow> vs) [] dirs"

text \<open>
  The comparator \<open>(a, b) => parseInt(b) - parseInt(a)\<close>. The difference of two of the
  Numbers above is negative, zero or positive as the first is less than, equal to or greater
  than the second; \<open>Infinity - Infinity\<close> is \<open>NaN\<close>, which \<open>sort\<close> takes for \<open>+0\<close>.
\<close>

definition compareVersions :: "string \<Rightarrow> string \<Rightarrow> int" where
  "compareVersions a b =
     (if parseInt b < parseInt a then - 1 else if parseInt a < parseInt b then 1 else 0)"

text \<open>
  \<open>Array.prototype.sort(comparefn)\<close> is a stable sort: \<open>a\<close> stays before \<open>b\<close> unless
  \<open>comparefn(a, b) > 0\<close>. Here it is an insertion sort from the right end of the array.
\<close>

fun insert_by :: "('a \<Rightarrow> 'a \<Rightarrow> int) \<Rightarrow> 'a \<Rightarrow> 'a list \<Rightarrow> 'a list" where
  "insert_by cmp x [] = [x]"
| "insert_by cmp x (y # ys) = (if cmp x y \<le> 0 then x # y # ys else y # insert_by cmp x ys)"

definition sort_by :: "('a \<Rightarrow> 'a \<Rightarrow> int) \<Rightarrow> 'a list \<Rightarrow> 'a list" where
  "sort_by cmp xs = foldr (insert_by cmp) xs []"

definition sortDescending :: "string list \<Rightarrow> string list" where
  "sortDescending vs = sort_by compareVersions vs"

definition detectAvailableJDK :: "fs \<Rightarrow> js_error + string option" where
  "detectAvailableJDK fs =
     (if \<not> existsSync fs JDK_DIR then Inr None
      else case readdirSync fs JDK_DIR of
        Inl e \<Rightarrow> Inl e
      | Inr names \<Rightarrow>
          (let dirs = filter (\<lambda>d. isDirectory fs (JDK_DIR @ [d]) \<and> prefix ''jdk-'' d) names in
           if length dirs = 0 then Inr None
           else let versions = collectVersions dirs in
             if length versions = 0 then Inr None
             else (case sortDescending versions of
                     [] \<Rightarrow> Inr None
                   | v # _ \<Rightarrow> Inr (Some v))))"

text \<open>\<open>const JDK_VERSION = process.env.JDK_VERSION || detectAvailableJDK() || '21'\<close>:
  an unset or empty environment variable is falsy, and so is \<open>null\<close>.\<close>

definition JDK_VERSION :: "string option \<Rightarrow> fs \<Rightarrow> js_error + string" where
  "JDK_VERSION env fs =
     (case env of
        Some (c # cs) \<Rightarrow> Inr (c # cs)
      | _ \<Rightarrow>
        (case detectAvailableJDK fs of
           Inl e \<Rightarrow> Inl e
         | Inr (Some (c # cs)) \<Rightarrow> Inr (c # cs)
         | Inr _ \<Rightarrow> Inr ''21''))"


text \<open>
  The version number that a run of decimal digits denotes, as the claim about the
  selection reads it: the integer in positional notation, whatever its size.
\<close>

definition versionNumber :: "string \<Rightarrow> nat" where
  "versionNumber s = (\<Sum>i<length s. digitVal (rev s ! i) * 10 ^ i)"
text \<open>A downloads directory holding two extracted JDKs and one archive.\<close>

definition fs_two_jdks :: fs where
  "fs_two_jdks =
     [([''jdk-downloads''], Dir 0),
      ([''jdk-downloads'', ''jdk-9-linux-x64''], Dir 0),
      ([''jdk-downloads'', ''jdk-17-linux-x64''], Dir 0),
      ([''jdk-downloads'', ''jdk-21.zip''], File 0 5 [])]"


text \<open>A downloads directory holding two extracted JDKs whose version numbers are
  \<open>2^53\<close> and \<open>2^53 + 1\<close>.\<close>

definition fs_huge_jdks :: fs where
  "fs_huge_jdks =
     [([''jdk-downloads''], Dir 0),
      ([''jdk-downloads'', ''jdk-9007199254740992-linux-x64''], Dir 0),
      ([''jdk-downloads'', ''jdk-9007199254740993-linux-x64''], Dir 0)]"
section \<open>JavaScript strings and arrays\<close>

text \<open>
  Console output is a list of lines. Colour escapes are left out, and the check mark and
  the cross that the scripts print are written \<open>[v]\<close> and \<open>[x]\<close>. Banners and the
  closing hints of a script are not part of the model.
\<close>

text \<open>\<open>String.prototype.trim\<close>, for the ASCII white space characters; the module
  names that the tool prints are ASCII.\<close>

definition isSpace :: "char \<Rightarrow> bool" where
  "isSpace c = (c \<in> set [CHR 0x09, CHR 0x0A, CHR 0x0B, CHR 0x0C, CHR 0x0D, CHR 0x20])"

definition trim :: "string \<Rightarrow> string" where
  "trim s = rev (dropWhile isSpace (rev (dropWhile isSpace s)))"

fun str_includes :: "string \<Rightarrow> string \<Rightarrow> bool" where
  "str_includes [] t = (t = [])"
| "str_includes (c # s) t = (prefix t (c # s) \<or> str_includes s t)"

definition startsWith :: "string \<Rightarrow> string \<Rightarrow> bool" where
  "startsWith s t = prefix t s"

definition endsWith :: "string \<Rightarrow> string \<Rightarrow> bool" where
  "endsWith s t = suffix t s"

text \<open>\<open>s.split(c)\<close> for a one-character separator: never empty, \<open>''.split(',')\<close> is
  \<open>['']\<close>.\<close>

fun split_on :: "char \<Rightarrow> string \<Rightarrow> string list" where
  "split_on c [] = [[]]"
| "split_on c (x # xs) =
     (if x = c then [] # split_on c xs
      else (case split_on c xs of
              [] \<Rightarrow> [[x]]
            | w # ws \<Rightarrow> (x # w) # ws))"

fun join :: "string \<Rightarrow> string list \<Rightarrow> string" where
  "join sep [] = []"
| "join sep [x] = x"
| "join sep (x # y # ys) = x @ sep @ join sep (y # ys)"

fun showNat :: "nat \<Rightarrow> string" where
  "showNat n =
     (if n < 10 then [char_of (48 + n)]
      else showNat (n div 10) @ [char_of (48 + n mod 10)])"

declare showNat.simps [simp del]

definition showInt :: "int \<Rightarrow> string" where
  "showInt i = (if i < 0 then ''-'' @ showNat (nat (- i)) else showNat (nat i))"

definition basename :: "path \<Rightarrow> string" where
  "basename p = (if p = [] then [] else last p)"

text \<open>\<open>path.extname\<close> of a base name: from its last dot, unless there is none or the
  only dot is the first character.\<close>

definition extname :: "string \<Rightarrow> string" where
  "extname b =
     (let r = takeWhile (\<lambda>c. c \<noteq> CHR ''.'') (rev b) in
      if length r = length b \<or> length r + 1 = length b \<or> b = ''..'' then []
      else drop (length b - length r - 1) b)"

definition basename_ext :: "path \<Rightarrow> string" where
  "basename_ext p = take (length (basename p) - length (extname (basename p))) (basename p)"

text \<open>\<open>Array.prototype.sort()\<close> without a comparator orders strings by their code units,
  which is the lexicographic order of the character lists.\<close>

definition js_sort :: "string list \<Rightarrow> string list" where
  "js_sort xs = sort xs"

section \<open>analyze-jar.js\<close>

text \<open>
  The external analysis tool is a parameter: given the path of the \<open>jdeps\<close> executable,
  whether \<open>--multi-release 17\<close> is passed, and the artifact, it yields the standard
  output of the run, or nothing when \<open>execSync\<close> throws (the tool cannot be started or
  exits with a non-zero status).
\<close>

type_synonym jdeps_tool = "path \<Rightarrow> bool \<Rightarrow> path \<Rightarrow> string option"

definition analyzeJAR :: "jdeps_tool \<Rightarrow> bool \<Rightarrow> path \<Rightarrow> path \<Rightarrow> string list option" where
  "analyzeJAR tool win32 jarPath jdkPath =
     (let jdeps = jdkPath @ [''bin'', if win32 then ''jdeps.exe'' else ''jdeps''];
          run = (case tool jdeps True jarPath of
                   Some out \<Rightarrow> Some (trim out)
                 | None \<Rightarrow> map_option trim (tool jdeps False jarPath))
      in case run of
           None \<Rightarrow> None
         | Some output \<Rightarrow>
             if output = [] \<or> str_includes output ''Error'' \<or> str_includes output ''not found''
             then None
             else
               (let modules =
                      filter (\<lambda>m. m \<noteq> [] \<and> \<not> startsWith m ''-'' \<and> \<not> str_includes m ''Error'')
                        (map trim (split_on CHR '','' output))
                in if length modules > 0 then Some modules else None))"

definition DEFAULT_MODULES :: "string list" where
  "DEFAULT_MODULES =
     [''java.base'', ''java.desktop'', ''java.xml'', ''java.logging'',
      ''java.naming'', ''java.sql'', ''java.management'', ''jdk.unsupported'']"

record jarResult =
  jar :: string
  modules :: "string list"
  success :: bool

record analysis =
  allModules :: "string list"
  jarResults :: "jarResult list"
  console :: "string list"

text \<open>The body of \<open>jarFiles.forEach((jarFile, idx) => ...)\<close> in \<open>main\<close>.\<close>

definition analyzeOne ::
  "jdeps_tool \<Rightarrow> bool \<Rightarrow> path \<Rightarrow> nat \<Rightarrow> analysis \<Rightarrow> nat \<times> path \<Rightarrow> analysis" where
  "analyzeOne tool win32 jdkPath count a ij =
     (let idx = fst ij; jarFile = snd ij;
          isMultiple = (count > 1);
          jarName = basename jarFile;
          progress = ''  ['' @ showNat (idx + 1) @ ''/'' @ showNat count @ ''] '' @ jarName @ ''... '';
          a1 = (if isMultiple then a
                else a\<lparr>console := console a @ [''[INFO] Analyzing JAR dependencies...'']\<rparr>)
      in case analyzeJAR tool win32 jarFile jdkPath of
           Some ms \<Rightarrow>
             a1\<lparr>allModules := foldl set_add (allModules a1) ms,
                jarResults := jarResults a1 @ [\<lparr>jar = jarName, modules = ms, success = True\<rparr>],
                console := console a1 @
                  [if isMultiple then progress @ ''[v] ('' @ showNat (length ms) @ '' modules)''
                   else ''[v] Detected '' @ showNat (length ms) @ '' required modules'']\<rparr>
         | None \<Rightarrow>
             a1\<lparr>jarResults := jarResults a1 @ [\<lparr>jar = jarName, modules = [], success = False\<rparr>],
                console := console a1 @
                  [if isMultiple then progress @ ''[x] (failed)''
                   else ''[WARN] Could not detect modules'']\<rparr>)"

definition reportLine :: "jarResult \<Rightarrow> string" where
  "reportLine r =
     (if success r
      then ''  [v] '' @ jar r @ '': '' @ showNat (length (modules r)) @ '' modules''
      else ''  [x] '' @ jar r @ '': analysis failed'')"

record analyzer_run =
  perJar :: "jarResult list"
  finalModules :: "string list"
  moduleSource :: string
  outputFile :: string
  outputText :: string
  estimatedSize :: int
  printed :: "string list"

text \<open>
  \<open>main\<close>, from the list that \<open>findJarFiles\<close> returned (it ends the process instead of
  returning an empty list) and the result of \<open>findJDK\<close>. The write of the module-list
  file is the pair \<open>outputFile\<close>, \<open>outputText\<close> of the result. The listing of the
  artifacts found, with their sizes, is not part of the model.
\<close>

definition main_analyze ::
  "jdeps_tool \<Rightarrow> bool \<Rightarrow> path list \<Rightarrow> path option \<Rightarrow> js_error + analyzer_run" where
  "main_analyze tool win32 jarFiles jdkPath =
     (case jarFiles of
        [] \<Rightarrow> Inl TypeError
      | first # _ \<Rightarrow>
          (let isMultiple = (length jarFiles > 1);
               a0 = \<lparr>allModules = [], jarResults = [], console = []\<rparr>;
               a = (case jdkPath of
                      Some jdk \<Rightarrow>
                        foldl (analyzeOne tool win32 jdk (length jarFiles))
                          (a0\<lparr>console := (if isMultiple then [''[INFO] Analyzing JARs...''] else [])\<rparr>)
                          (zip [0 ..< length jarFiles] jarFiles)
                    | None \<Rightarrow> a0\<lparr>console := [''[WARN] No JDK found for analysis'']\<rparr>);
               byJdeps = (length (allModules a) > 0);
               final = (if byJdeps then js_sort (allModules a) else DEFAULT_MODULES);
               source = (if byJdeps then ''jdeps'' else ''default'');
               c1 = console a @ (if byJdeps then [] else [''[INFO] Using default module set'']);
               file = (if isMultiple then ''combined-modules.txt''
                       else basename_ext first @ ''-modules.txt'');
               text = join '','' final;
               c2 = c1 @ (if isMultiple \<and> jdkPath \<noteq> None
                          then ''Per-JAR Results:'' # map reportLine (jarResults a) else []);
               c3 = c2 @ [''Combined Module List ('' @ showNat (length final) @ '' modules):'']
                       @ map (\<lambda>m. ''  - '' @ m) final
                       @ [''Module String:'', ''  '' @ text, ''Saved to: '' @ file,
                          ''Source: '' @ source];
               baseSize = (if ''java.desktop'' \<in> set final then 45 else 25);
               extraModules = int (length final) - 4;
               est = baseSize + extraModules * 2
           in Inr \<lparr>perJar = jarResults a, finalModules = final, moduleSource = source,
                   outputFile = file, outputText = text, estimatedSize = est,
                   printed = c3 @ [''Estimated JRE size: '' @ showInt est @ ''-'' @
                                   showInt (est + 10) @ '' MB per platform'']\<rparr>))"

text \<open>Two artifacts, as in the scenario of the specification, and one that the tool
  rejects.\<close>

definition jdeps_example :: jdeps_tool where
  "jdeps_example exe multi jarPath =
     (if jarPath = [''jars'', ''X.jar''] then Some ''java.base,java.xml''
      else if jarPath = [''jars'', ''Y.jar''] \<and> \<not> multi then Some '' java.sql, java.base ''
      else None)"

definition jars_example :: "path list" where
  "jars_example = [[''jars'', ''X.jar''], [''jars'', ''bad.jar''], [''jars'', ''Y.jar'']]"

section \<open>build-jre-all-platforms.js: the module list\<close>

definition BUILD_DEFAULT_MODULES :: string where
  "BUILD_DEFAULT_MODULES =
     ''java.base,java.desktop,java.xml,java.logging,java.naming,java.sql,java.management,jdk.unsupported''"

definition readFileSync :: "fs \<Rightarrow> path \<Rightarrow> js_error + string" where
  "readFileSync fs p =
     (case map_of fs p of
        None \<Rightarrow> Inl ENOENT
      | Some (Dir _) \<Rightarrow> Inl EISDIR
      | Some (File _ _ text) \<Rightarrow> Inr text)"

definition statMtimeMs :: "fs \<Rightarrow> path \<Rightarrow> int" where
  "statMtimeMs fs p = (case map_of fs p of Some n \<Rightarrow> mtimeMs n | None \<Rightarrow> 0)"

text \<open>
  The three messages that name the selected source are template literals that read
  \<open>colors.blue\<close> and \<open>colors.reset\<close> (lines 76, 90 and 101 of the script), and the
  statements that hold them run when the module is loaded, before the declaration
  \<open>const colors = {...}\<close> on line 105 is reached. Reading a \<open>const\<close> binding before its
  declaration has run throws a ReferenceError, so none of the three messages is ever
  printed: evaluating the argument of \<open>console.log\<close> throws.
\<close>

definition log_source :: "string \<Rightarrow> js_error + string" where
  "log_source message = Inl ReferenceError"

record module_choice =
  MODULES :: string
  modulesSource :: string
  logged :: "string list"

text \<open>
  The body of the two \<open>try\<close> blocks that read a module file. The assignments come
  before the message; the \<open>catch\<close> clause is empty, so an error of the read, or of the
  message, is dropped and what was assigned stays assigned.
\<close>

definition useModuleFile :: "fs \<Rightarrow> string \<Rightarrow> string \<Rightarrow> module_choice \<Rightarrow> module_choice" where
  "useModuleFile fs file tag s =
     (case readFileSync fs [file] of
        Inl e \<Rightarrow> s
      | Inr text \<Rightarrow>
          (let customModules = trim text in
           if customModules \<noteq> [] then
             (let s' = s\<lparr>MODULES := customModules, modulesSource := file\<rparr> in
              case log_source (tag @ '' Using modules from: '' @ file) of
                Inl e \<Rightarrow> s'
              | Inr line \<Rightarrow> s'\<lparr>logged := logged s' @ [line]\<rparr>)
           else s))"

definition autoModuleFiles :: "fs \<Rightarrow> string list" where
  "autoModuleFiles fs =
     sort_key (\<lambda>f. - statMtimeMs fs [f])
       (filter (\<lambda>f. endsWith f ''-modules.txt'') (entries fs []))"

text \<open>
  The module-level statements of lines 55 to 102, run in the working directory \<open>fs\<close>
  with the value of the environment variable \<open>MODULES\<close>. An uncaught error ends the
  script before \<open>main\<close> is called.
\<close>

definition resolveModules :: "string option \<Rightarrow> fs \<Rightarrow> js_error + module_choice" where
  "resolveModules envMODULES fs =
     (let envSet = (case envMODULES of Some (c # cs) \<Rightarrow> True | _ \<Rightarrow> False);
          s0 = \<lparr>MODULES = BUILD_DEFAULT_MODULES, modulesSource = ''default'', logged = []\<rparr>;
          s1 = (case autoModuleFiles fs of
                  latestModuleFile # _ \<Rightarrow>
                    if \<not> envSet then useModuleFile fs latestModuleFile ''[AUTO]'' s0 else s0
                | [] \<Rightarrow> s0);
          s2 = (if existsSync fs [''custom-modules.txt''] \<and> \<not> envSet
                then useModuleFile fs ''custom-modules.txt'' ''[CUSTOM]'' s1 else s1)
      in case envMODULES of
           Some (c # cs) \<Rightarrow>
             (let s3 = s2\<lparr>MODULES := c # cs, modulesSource := ''environment variable''\<rparr> in
              case log_source ''[ENV] Using modules from environment variable'' of
                Inl e \<Rightarrow> Inl e
              | Inr line \<Rightarrow> Inr (s3\<lparr>logged := logged s3 @ [line]\<rparr>))
         | _ \<Rightarrow> Inr s2)"

text \<open>A working directory with a manual file, two analysis outputs and an unrelated
  file.\<close>

definition fs_module_files :: fs where
  "fs_module_files =
     [([''app-modules.txt''], File 100 18 ''java.base,java.xml''),
      ([''custom-modules.txt''], File 50 19 ''java.base,java.sql\<newline>''),
      ([''combined-modules.txt''], File 200 9 ''java.base''),
      ([''package.json''], File 300 2 ''{}'')]"

section \<open>build-jre-all-platforms.js: the link step\<close>

text \<open>
  What a script does is a state: the file system, and the trace of what it printed and of
  the external tools it ran.
\<close>

datatype event =
    Log string
  | Spawn path "string list"
  | HttpGet string

record state =
  files :: fs
  events :: "event list"

definition emit :: "event \<Rightarrow> state \<Rightarrow> state" where
  "emit e st = st\<lparr>events := events st @ [e]\<rparr>"

text \<open>The \<open>log\<close> object; \<open>log.header\<close> prints its message between two rules, which is
  one tagged line here.\<close>

definition log_header :: "string \<Rightarrow> state \<Rightarrow> state" where
  "log_header msg = emit (Log (''[HEADER] '' @ msg))"

definition log_info :: "string \<Rightarrow> state \<Rightarrow> state" where
  "log_info msg = emit (Log (''[INFO] '' @ msg))"

definition log_success :: "string \<Rightarrow> state \<Rightarrow> state" where
  "log_success msg = emit (Log (''[SUCCESS] '' @ msg))"

definition log_error :: "string \<Rightarrow> state \<Rightarrow> state" where
  "log_error msg = emit (Log (''[ERROR] '' @ msg))"

definition log_step :: "string \<Rightarrow> state \<Rightarrow> state" where
  "log_step msg = emit (Log (''[STEP] '' @ msg))"

definition path_str :: "path \<Rightarrow> string" where
  "path_str p = join ''/'' p"

definition OUTPUT_DIR :: path where
  "OUTPUT_DIR = [''jre-builds'']"

text \<open>\<open>fs.mkdirSync(dir, { recursive: true })\<close> behind \<open>ensureDir\<close>: the directory and
  the missing ones above it. Entries that a script creates get the modification time 0;
  only the module-list resolution reads modification times.\<close>

fun mkdirs :: "fs \<Rightarrow> path \<Rightarrow> nat \<Rightarrow> fs" where
  "mkdirs fs p 0 = fs"
| "mkdirs fs p (Suc k) =
     (let fs' = mkdirs fs p k; d = take (Suc k) p
      in if existsSync fs' d then fs' else fs' @ [(d, Dir 0)])"

definition ensureDir :: "path \<Rightarrow> state \<Rightarrow> state" where
  "ensureDir dir st =
     (if \<not> existsSync (files st) dir then st\<lparr>files := mkdirs (files st) dir (length dir)\<rparr> else st)"

text \<open>
  The linking tool is a parameter: run by \<open>spawnSync\<close> with a command and arguments on a
  file system, it yields the result object (\<open>error\<close> when the process could not be
  started, the exit \<open>status\<close>, which is \<open>null\<close> when a signal ended the process, and
  \<open>stderr\<close>) and the file system it leaves.
\<close>

record spawn_result =
  error :: "js_error option"
  status :: "int option"
  stderr :: string

type_synonym jlink_tool = "path \<Rightarrow> string list \<Rightarrow> fs \<Rightarrow> spawn_result \<times> fs"

definition jlinkCandidates :: "path \<Rightarrow> path list" where
  "jlinkCandidates jdkPath =
     [jdkPath @ [''bin'', ''jlink''],
      jdkPath @ [''bin'', ''jlink.exe''],
      jdkPath @ [''Contents'', ''Home'', ''bin'', ''jlink'']]"

definition checkJdk :: "string \<Rightarrow> path \<Rightarrow> state \<Rightarrow> (js_error + bool) \<times> state" where
  "checkJdk platform jdkPath st =
     (if \<not> existsSync (files st) jdkPath then
        (let st1 = log_info ''Please run node download-jdks.js first''
                     (log_error (''JDK not found at: '' @ path_str jdkPath) st)
         in if existsSync (files st1) JDK_DIR then
              (case readdirSync (files st1) JDK_DIR of
                 Inl e \<Rightarrow> (Inl e, st1)
               | Inr names \<Rightarrow>
                   (let dirs = filter (\<lambda>d. isDirectory (files st1) (JDK_DIR @ [d])) names
                    in if length dirs > 0
                       then (Inr False,
                             log_info (''Available JDK directories: '' @ join '', '' dirs) st1)
                       else (Inr False, st1)))
            else (Inr False, st1))
      else if \<not> list_ex (existsSync (files st)) (jlinkCandidates jdkPath) then
        (Inr False,
         foldl (\<lambda>s p. log_info (''  - '' @ path_str p) s)
           (log_info ''Checked paths:''
              (log_error (''jlink not found in JDK at: '' @ path_str jdkPath) st))
           (jlinkCandidates jdkPath))
      else (Inr True, st))"

definition getJlinkPath :: "fs \<Rightarrow> path \<Rightarrow> path option" where
  "getJlinkPath fs jdkPath = List.find (existsSync fs) (jlinkCandidates jdkPath)"

definition jlinkArgs :: "string \<Rightarrow> path \<Rightarrow> string list" where
  "jlinkArgs mods outputPath =
     [''--add-modules'', mods,
      ''--output'', path_str outputPath,
      ''--strip-debug'',
      ''--compress=2'',
      ''--no-header-files'',
      ''--no-man-pages'',
      ''--strip-native-commands'']"

text \<open>
  \<open>buildJre\<close>, in three parts: the removal of an existing output, the run of the tool,
  and the checks of the \<open>try\<close> block after the run (\<open>result.error\<close> is thrown and
  caught there). The size that the success message reports is not part of the model
  (\<open>getDirectorySize\<close> swallows its own errors).
\<close>

definition removeExisting :: "path \<Rightarrow> state \<Rightarrow> state" where
  "removeExisting outputPath st =
     (if existsSync (files st) outputPath
      then (log_info (''Removing existing JRE: '' @ path_str outputPath) st)
             \<lparr>files := rmSync (files st) outputPath\<rparr>
      else st)"

definition spawnSync :: "jlink_tool \<Rightarrow> path \<Rightarrow> string list \<Rightarrow> state \<Rightarrow> spawn_result \<times> state" where
  "spawnSync tool cmd args st =
     (fst (tool cmd args (files st)),
      (emit (Spawn cmd args) st)\<lparr>files := snd (tool cmd args (files st))\<rparr>)"

definition afterJlink :: "string \<Rightarrow> path \<Rightarrow> spawn_result \<Rightarrow> state \<Rightarrow> bool \<times> state" where
  "afterJlink platform outputPath result st =
     (if error result \<noteq> None then
        (False, log_error (''jlink failed for '' @ platform) st)
      else if status result \<noteq> Some 0 then
        (False,
         (if stderr result \<noteq> [] then log_error (''stderr: '' @ stderr result) else id)
           (log_error ''jlink failed'' st))
      else if \<not> existsSync (files st) outputPath then
        (False, log_error ''JRE build failed - output directory not created'' st)
      else (True, log_success (''Built '' @ platform @ '' JRE'') st))"

definition buildJre ::
  "jlink_tool \<Rightarrow> string \<Rightarrow> string \<Rightarrow> path \<Rightarrow> string \<Rightarrow> state \<Rightarrow> bool \<times> state" where
  "buildJre jlink mods platform jdkPath outputName st =
     (let st1 = log_info (''Building JRE for '' @ platform @ ''...'') st
      in case getJlinkPath (files st1) jdkPath of
           None \<Rightarrow> (False, log_error (''jlink not found for '' @ platform) st1)
         | Some jlinkCmd \<Rightarrow>
             (let outputPath = OUTPUT_DIR @ [outputName];
                  st2 = removeExisting outputPath st1;
                  args = jlinkArgs mods outputPath;
                  st3 = log_info ''Running jlink...'' st2
              in case spawnSync jlink jlinkCmd args st3 of
                   (result, st4) \<Rightarrow> afterJlink platform outputPath result st4))"

definition findJdkPath :: "fs \<Rightarrow> string \<Rightarrow> string \<Rightarrow> string list \<Rightarrow> path" where
  "findJdkPath fs version platform archVariants =
     (if existsSync fs (JDK_DIR @ [''jdk-'' @ version @ ''-'' @ platform])
      then JDK_DIR @ [''jdk-'' @ version @ ''-'' @ platform]
      else case List.find (\<lambda>variant. existsSync fs (JDK_DIR @ [''jdk-'' @ version @ ''-'' @ variant]))
                  archVariants of
             Some variant \<Rightarrow> JDK_DIR @ [''jdk-'' @ version @ ''-'' @ variant]
           | None \<Rightarrow> JDK_DIR @ [''jdk-'' @ version @ ''-'' @ platform])"

text \<open>The common tail of the six builders: \<open>checkJdk\<close>, then \<open>buildJre\<close>.\<close>

definition checkAndBuild ::
  "jlink_tool \<Rightarrow> string \<Rightarrow> string \<Rightarrow> path \<Rightarrow> string \<Rightarrow> state \<Rightarrow> (js_error + bool) \<times> state" where
  "checkAndBuild jlink mods platform jdkPath outputName st =
     (case checkJdk platform jdkPath st of
        (Inl e, st') \<Rightarrow> (Inl e, st')
      | (Inr False, st') \<Rightarrow> (Inr False, st')
      | (Inr True, st') \<Rightarrow>
          (case buildJre jlink mods platform jdkPath outputName st' of
             (b, st'') \<Rightarrow> (Inr b, st'')))"

definition macHome :: "fs \<Rightarrow> path \<Rightarrow> path" where
  "macHome fs jdkPath =
     (if existsSync fs (jdkPath @ [''Contents'', ''Home''])
      then jdkPath @ [''Contents'', ''Home''] else jdkPath)"

definition buildWindowsX64 ::
  "jlink_tool \<Rightarrow> string \<Rightarrow> string \<Rightarrow> state \<Rightarrow> (js_error + bool) \<times> state" where
  "buildWindowsX64 jlink mods version st =
     (let st1 = log_header ''Building Windows x64 JRE'' st;
          jdkPath = findJdkPath (files st1) version ''windows-x64'' []
      in checkAndBuild jlink mods ''Windows x64'' jdkPath ''jre-win-x64'' st1)"

definition buildWindowsARM64 ::
  "jlink_tool \<Rightarrow> string \<Rightarrow> string \<Rightarrow> state \<Rightarrow> (js_error + bool) \<times> state" where
  "buildWindowsARM64 jlink mods version st =
     (let st1 = log_header ''Building Windows ARM64 JRE'' st;
          jdkPath = findJdkPath (files st1) version ''windows-arm64'' []
      in checkAndBuild jlink mods ''Windows ARM64'' jdkPath ''jre-win-arm64'' st1)"

definition buildMacOSX64 ::
  "jlink_tool \<Rightarrow> string \<Rightarrow> string \<Rightarrow> state \<Rightarrow> (js_error + bool) \<times> state" where
  "buildMacOSX64 jlink mods version st =
     (let st1 = log_header ''Building macOS x64 JRE'' st;
          jdkPath = macHome (files st1) (JDK_DIR @ [''jdk-'' @ version @ ''-macos-x64''])
      in checkAndBuild jlink mods ''macOS x64'' jdkPath ''jre-mac-x64'' st1)"

definition buildMacOSARM64 ::
  "jlink_tool \<Rightarrow> string \<Rightarrow> string \<Rightarrow> state \<Rightarrow> (js_error + bool) \<times> state" where
  "buildMacOSARM64 jlink mods version st =
     (let st1 = log_header ''Building macOS ARM64 (Apple Silicon) JRE'' st;
          jdkPath = macHome (files st1)
                      (findJdkPath (files st1) version ''macos-arm64'' [''macos-aarch64''])
      in checkAndBuild jlink mods ''macOS ARM64'' jdkPath ''jre-mac-arm64'' st1)"

definition buildLinuxX64 ::
  "jlink_tool \<Rightarrow> string \<Rightarrow> string \<Rightarrow> state \<Rightarrow> (js_error + bool) \<times> state" where
  "buildLinuxX64 jlink mods version st =
     (let st1 = log_header ''Building Linux x64 JRE'' st;
          jdkPath = JDK_DIR @ [''jdk-'' @ version @ ''-linux-x64'']
      in checkAndBuild jlink mods ''Linux x64'' jdkPath ''jre-linux-x64'' st1)"

definition buildLinuxARM64 ::
  "jlink_tool \<Rightarrow> string \<Rightarrow> string \<Rightarrow> state \<Rightarrow> (js_error + bool) \<times> state" where
  "buildLinuxARM64 jlink mods version st =
     (let st1 = log_header ''Building Linux ARM64 JRE'' st;
          jdkPath = findJdkPath (files st1) version ''linux-arm64'' [''linux-aarch64'']
      in checkAndBuild jlink mods ''Linux ARM64'' jdkPath ''jre-linux-arm64'' st1)"

section \<open>build-jre-all-platforms.js: the batch\<close>

text \<open>An object used as a dictionary keeps its keys in the order of their first
  assignment (none of the keys used here is an array index).\<close>

definition obj_set :: "(string \<times> 'a) list \<Rightarrow> string \<Rightarrow> 'a \<Rightarrow> (string \<times> 'a) list" where
  "obj_set obj k v =
     (if k \<in> set (map fst obj)
      then map (\<lambda>(k', v'). if k' = k then (k', v) else (k', v')) obj
      else obj @ [(k, v)])"


type_synonym builder = "state \<Rightarrow> (js_error + bool) \<times> state"

definition builders :: "jlink_tool \<Rightarrow> string \<Rightarrow> string \<Rightarrow> (string \<times> string \<times> builder) list" where
  "builders jlink mods v =
     [(''windows-x64'', ''Windows x64'', buildWindowsX64 jlink mods v),
      (''windows-arm64'', ''Windows ARM64'', buildWindowsARM64 jlink mods v),
      (''macos-x64'', ''macOS x64'', buildMacOSX64 jlink mods v),
      (''macos-arm64'', ''macOS ARM64'', buildMacOSARM64 jlink mods v),
      (''linux-x64'', ''Linux x64'', buildLinuxX64 jlink mods v),
      (''linux-arm64'', ''Linux ARM64'', buildLinuxARM64 jlink mods v)]"


text \<open>
  The batch as the claim about it describes it. The outcome of a platform is the boolean
  that its step returns, and false when the step throws. The platforms are attempted one
  after the other, each in the state that the one before it has left, whatever its outcome
  was (a step that threw has the line of its failure printed). \<open>attempts\<close> takes the
  platforms with their names, the lines of their failures and their steps, and yields the
  outcome of every platform, in order.
\<close>

definition outcome :: "builder \<Rightarrow> state \<Rightarrow> bool" where
  "outcome fn st = (case fst (fn st) of Inr ok \<Rightarrow> ok | Inl e \<Rightarrow> False)"











text \<open>Event traces only grow; a builder is announced by its header line.\<close>

definition grows :: "state \<Rightarrow> state \<Rightarrow> bool" where
  "grows st st' = prefix (events st) (events st')"


text \<open>The processes started so far.\<close>

definition spawns :: "state \<Rightarrow> event list" where
  "spawns st = filter (\<lambda>e. case e of Spawn cmd args \<Rightarrow> True | _ \<Rightarrow> False) (events st)"

text \<open>The file system that \<open>removeExisting\<close> leaves.\<close>

definition cleared :: "fs \<Rightarrow> path \<Rightarrow> fs" where
  "cleared fs p = (if existsSync fs p then rmSync fs p else fs)"

text \<open>
  A Windows JDK with its \<open>jlink.exe\<close>, and a runtime image already linked at the
  destination, entry-point binary included. Two linkers that exit with status 0: one
  writes a complete image, one only creates the output directory.
\<close>

definition jdk_win :: path where
  "jdk_win = [''jdk-downloads'', ''jdk-21-windows-x64'']"

definition st_cached :: state where
  "st_cached =
     \<lparr>files =
        [([''jdk-downloads''], Dir 0),
         ([''jdk-downloads'', ''jdk-21-windows-x64''], Dir 0),
         ([''jdk-downloads'', ''jdk-21-windows-x64'', ''bin''], Dir 0),
         ([''jdk-downloads'', ''jdk-21-windows-x64'', ''bin'', ''jlink.exe''], File 0 2048 []),
         ([''jre-builds''], Dir 0),
         ([''jre-builds'', ''jre-win-x64''], Dir 0),
         ([''jre-builds'', ''jre-win-x64'', ''bin''], Dir 0),
         ([''jre-builds'', ''jre-win-x64'', ''bin'', ''java.exe''], File 0 4096 [])],
      events = []\<rparr>"

definition jlink_complete :: jlink_tool where
  "jlink_complete cmd args fs =
     (\<lparr>error = None, status = Some 0, stderr = []\<rparr>,
      fs @ [([''jre-builds'', ''jre-win-x64''], Dir 0),
            ([''jre-builds'', ''jre-win-x64'', ''bin''], Dir 0),
            ([''jre-builds'', ''jre-win-x64'', ''bin'', ''java.exe''], File 0 4096 [])])"

definition jlink_hollow :: jlink_tool where
  "jlink_hollow cmd args fs =
     (\<lparr>error = None, status = Some 0, stderr = []\<rparr>,
      fs @ [([''jre-builds'', ''jre-win-x64''], Dir 0)])"

section \<open>download-jdks.js\<close>

definition DOWNLOAD_DIR :: path where
  "DOWNLOAD_DIR = [''jdk-downloads'']"

record version_config =
  vc_release :: string
  vc_version :: string
  vc_prefix :: string

definition VERSION_CONFIG :: "(string \<times> version_config) list" where
  "VERSION_CONFIG =
     [(''11'', \<lparr>vc_release = ''jdk-11.0.25%2B9'', vc_version = ''11.0.25_9'', vc_prefix = ''OpenJDK11U''\<rparr>),
      (''16'', \<lparr>vc_release = ''jdk-16.0.2%2B7'', vc_version = ''16.0.2_7'', vc_prefix = ''OpenJDK16U''\<rparr>),
      (''17'', \<lparr>vc_release = ''jdk-17.0.13%2B11'', vc_version = ''17.0.13_11'', vc_prefix = ''OpenJDK17U''\<rparr>),
      (''18'', \<lparr>vc_release = ''jdk-18.0.2.1%2B1'', vc_version = ''18.0.2.1_1'', vc_prefix = ''OpenJDK18U''\<rparr>),
      (''19'', \<lparr>vc_release = ''jdk-19.0.2%2B7'', vc_version = ''19.0.2_7'', vc_prefix = ''OpenJDK19U''\<rparr>),
      (''20'', \<lparr>vc_release = ''jdk-20.0.2%2B9'', vc_version = ''20.0.2_9'', vc_prefix = ''OpenJDK20U''\<rparr>),
      (''21'', \<lparr>vc_release = ''jdk-21.0.5%2B11'', vc_version = ''21.0.5_11'', vc_prefix = ''OpenJDK21U''\<rparr>)]"

datatype archive_type = Zip | TarGz

text \<open>The two \<open>jdkPath\<close> rules (\<open>config.jdkPath\<close>) of the platform table: the first \<open>jdk-\<close> entry of the
  directory, or below it the \<open>Contents/Home\<close> of a macOS bundle.\<close>

datatype layout = Direct | ContentsHome

record platform_config =
  url :: string
  archive :: archive_type
  layout :: layout

definition config_jdkPath :: "layout \<Rightarrow> fs \<Rightarrow> path \<Rightarrow> js_error + path" where
  "config_jdkPath l fs extractDir =
     (case readdirSync fs extractDir of
        Inl e \<Rightarrow> Inl e
      | Inr names \<Rightarrow>
          (case List.find (\<lambda>e. startsWith e ''jdk-'') names of
             None \<Rightarrow> Inr extractDir
           | Some jdkDir \<Rightarrow>
               (case l of
                  Direct \<Rightarrow> Inr (extractDir @ [jdkDir])
                | ContentsHome \<Rightarrow>
                    if existsSync fs (extractDir @ [jdkDir, ''Contents'', ''Home''])
                    then Inr (extractDir @ [jdkDir, ''Contents'', ''Home''])
                    else Inr extractDir)))"

text \<open>\<open>getPlatformConfig\<close>; an unsupported version ends the process with status 1, which
  is the result \<open>None\<close>.\<close>

definition getPlatformConfig :: "string \<Rightarrow> (string \<times> platform_config) list option" where
  "getPlatformConfig v =
     (case map_of VERSION_CONFIG v of
        None \<Rightarrow> None
      | Some config \<Rightarrow>
          (let baseUrl = ''https://github.com/adoptium/temurin'' @ v @ ''-binaries/releases/download/''
                           @ vc_release config;
               file = (\<lambda>arch os ext. baseUrl @ ''/'' @ vc_prefix config @ ''-jdk_'' @ arch @ ''_'' @ os
                                     @ ''_hotspot_'' @ vc_version config @ ext)
           in Some
             [(''windows-x64'',
                 \<lparr>url = file ''x64'' ''windows'' ''.zip'', archive = Zip, layout = Direct\<rparr>),
              (''windows-arm64'',
                 \<lparr>url = file ''aarch64'' ''windows'' ''.zip'', archive = Zip, layout = Direct\<rparr>),
              (''macos-x64'',
                 \<lparr>url = file ''x64'' ''mac'' ''.tar.gz'', archive = TarGz, layout = ContentsHome\<rparr>),
              (''macos-arm64'',
                 \<lparr>url = file ''aarch64'' ''mac'' ''.tar.gz'', archive = TarGz, layout = ContentsHome\<rparr>),
              (''linux-x64'',
                 \<lparr>url = file ''x64'' ''linux'' ''.tar.gz'', archive = TarGz, layout = Direct\<rparr>),
              (''linux-arm64'',
                 \<lparr>url = file ''aarch64'' ''linux'' ''.tar.gz'', archive = TarGz, layout = Direct\<rparr>)]))"

subsection \<open>The download\<close>

text \<open>
  The network is a parameter: given the URLs requested so far and the URL of a request, it
  says what becomes of one call of \<open>downloadFile\<close>:
  \<^item> \<open>GetThrows\<close>: \<open>protocol.get\<close> throws at once (an address that is not an absolute
    URL, as the \<open>Location\<close> of a redirect may be), after the write stream was created;
  \<^item> \<open>OpenError\<close>: the write stream cannot be opened and emits \<open>error\<close>; the destination
    is not created;
  \<^item> \<open>RequestError\<close>: the request emits \<open>error\<close> before any response;
  \<^item> \<open>Response\<close>: a response with a status code and a \<open>Location\<close> header, and, for a
    status 200, how the transfer of the body ends after some bytes were written: the body
    ends and the write stream finishes; the write stream emits \<open>error\<close>; the request emits
    \<open>error\<close>; or the connection is closed before the end of the body with no \<open>error\<close>
    event at all (the response has no \<open>error\<close> listener, and \<open>pipe\<close> ends the write
    stream only at the end of the body).
\<close>

datatype transfer = Finished nat | FileError nat | RequestErrorAfter nat | CutShort nat

datatype outcome =
    GetThrows
  | OpenError
  | RequestError
  | Response nat "string option" transfer

type_synonym network = "string list \<Rightarrow> string \<Rightarrow> outcome"

definition requests :: "state \<Rightarrow> string list" where
  "requests st = concat (map (\<lambda>e. case e of HttpGet u \<Rightarrow> [u] | _ \<Rightarrow> []) (events st))"

text \<open>\<open>fs.createWriteStream(dest)\<close> creates the destination, or empties it; the stream
  then holds the bytes written so far.\<close>

definition writeFile :: "fs \<Rightarrow> path \<Rightarrow> nat \<Rightarrow> fs" where
  "writeFile fs p n = unlinkSync fs p @ [(p, File 0 n [])]"

definition withFiles :: "(fs \<Rightarrow> fs) \<Rightarrow> state \<Rightarrow> state" where
  "withFiles f st = st\<lparr>files := f (files st)\<rparr>"

text \<open>The two \<open>error\<close> handlers: \<open>if (fs.existsSync(dest)) fs.unlinkSync(dest)\<close>.\<close>

definition unlinkIfExists :: "path \<Rightarrow> state \<Rightarrow> state" where
  "unlinkIfExists dest st =
     (if existsSync (files st) dest then withFiles (\<lambda>fs. unlinkSync fs dest) st else st)"

text \<open>
  A promise of no value is resolved, rejected with an error, or never settled. A script
  that awaits a promise that never settles does nothing more: when no other work is
  left, the process ends, with status 0.
\<close>

datatype promise = Resolved | Rejected js_error | Pending

text \<open>
  \<open>downloadFile\<close>: the promise that it returns, and the state once nothing more happens
  to the download. A chain of redirects that never ends has no such state, which is the
  result \<open>None\<close>. A redirect without a \<open>Location\<close> header calls
  \<open>downloadFile(undefined, dest)\<close>, whose first statement throws a TypeError before a
  write stream is created. In the handler of a request error, \<open>file.close()\<close> ends the
  write stream; when the response had arrived, the listener of \<open>finish\<close> is registered
  and prints its line although the promise is rejected.
\<close>

partial_function (option) downloadFile ::
  "network \<Rightarrow> string \<Rightarrow> path \<Rightarrow> state \<Rightarrow> (promise \<times> state) option" where
  "downloadFile net u dest st =
     (case net (requests st) u of
        GetThrows \<Rightarrow>
          Some (Rejected ERR_INVALID_URL, withFiles (\<lambda>fs. writeFile fs dest 0) st)
      | OpenError \<Rightarrow>
          Some (Rejected StreamFailed, unlinkIfExists dest (emit (HttpGet u) st))
      | RequestError \<Rightarrow>
          Some (Rejected RequestFailed,
                unlinkIfExists dest (withFiles (\<lambda>fs. writeFile fs dest 0) (emit (HttpGet u) st)))
      | Response statusCode location body \<Rightarrow>
          (let st1 = withFiles (\<lambda>fs. writeFile fs dest 0) (emit (HttpGet u) st) in
           if statusCode = 301 \<or> statusCode = 302 \<or> statusCode = 307 then
             (case location of
                None \<Rightarrow> Some (Rejected TypeError, withFiles (\<lambda>fs. unlinkSync fs dest) st1)
              | Some l \<Rightarrow> downloadFile net l dest (withFiles (\<lambda>fs. unlinkSync fs dest) st1))
           else if statusCode \<noteq> 200 then
             Some (Rejected (HttpError statusCode), withFiles (\<lambda>fs. unlinkSync fs dest) st1)
           else
             (case body of
                Finished n \<Rightarrow>
                  Some (Resolved,
                        emit (Log ''  [v] Downloaded'') (withFiles (\<lambda>fs. writeFile fs dest n) st1))
              | FileError n \<Rightarrow>
                  Some (Rejected StreamFailed,
                        unlinkIfExists dest (withFiles (\<lambda>fs. writeFile fs dest n) st1))
              | RequestErrorAfter n \<Rightarrow>
                  Some (Rejected RequestFailed,
                        emit (Log ''  [v] Downloaded'')
                          (unlinkIfExists dest (withFiles (\<lambda>fs. writeFile fs dest n) st1)))
              | CutShort n \<Rightarrow>
                  Some (Pending, withFiles (\<lambda>fs. writeFile fs dest n) st1))))"

declare downloadFile.simps [code]

subsection \<open>One platform\<close>

text \<open>The two archive libraries are one parameter: the error thrown, if any, and the
  file system that unpacking the archive into a directory leaves.\<close>

type_synonym extractor = "archive_type \<Rightarrow> path \<Rightarrow> path \<Rightarrow> fs \<Rightarrow> js_error option \<times> fs"

text \<open>\<open>fs.statSync(p).size\<close>; what a directory reports depends on the platform and is
  far below the threshold it is compared with, here 0.\<close>

definition statSize :: "fs \<Rightarrow> path \<Rightarrow> nat" where
  "statSize fs p = (case map_of fs p of Some (File _ n _) \<Rightarrow> n | _ \<Rightarrow> 0)"

definition renameSync :: "fs \<Rightarrow> path \<Rightarrow> path \<Rightarrow> fs" where
  "renameSync fs a b = map (\<lambda>(q, n). (if prefix a q then b @ drop (length a) q else q, n)) fs"

definition archiveName :: "platform_config \<Rightarrow> string" where
  "archiveName config = last (split_on CHR ''/'' (url config))"

definition jlinkExe :: "string \<Rightarrow> string" where
  "jlinkExe platform = (if str_includes platform ''windows'' then ''jlink.exe'' else ''jlink'')"

text \<open>"Check if final directory exists and is valid": \<open>Inr True\<close> when the platform is
  already installed and the function returns.\<close>

definition verifyExisting ::
  "string \<Rightarrow> platform_config \<Rightarrow> path \<Rightarrow> state \<Rightarrow> (js_error + bool) \<times> state" where
  "verifyExisting platform config finalDir st =
     (if existsSync (files st) finalDir then
        (case config_jdkPath (layout config) (files st) finalDir of
           Inl e \<Rightarrow> (Inl e, st)
         | Inr jdk \<Rightarrow>
             if existsSync (files st) (jdk @ [''bin'', jlinkExe platform])
             then (Inr True, emit (Log ''  [v] Already exists and verified'') st)
             else (Inr False,
                   withFiles (\<lambda>fs. rmSync fs finalDir)
                     (emit (Log ''  [INFO] Existing installation invalid, re-extracting...'') st)))
      else (Inr False, st))"

text \<open>"Download if needed": the archive is there (\<open>Fetched\<close>), the download was
  rejected and the function returns (\<open>FetchFailed\<close>), or the download never settles
  (\<open>FetchPending\<close>).\<close>

datatype fetch = Fetched | FetchFailed | FetchPending

definition needsDownload :: "fs \<Rightarrow> path \<Rightarrow> bool" where
  "needsDownload fs archivePath =
     (if existsSync fs archivePath then statSize fs archivePath < 1024 * 1024 else True)"

definition fetchArchive ::
  "network \<Rightarrow> platform_config \<Rightarrow> path \<Rightarrow> state \<Rightarrow> (fetch \<times> state) option" where
  "fetchArchive net config archivePath st =
     (if needsDownload (files st) archivePath then
        (case downloadFile net (url config) archivePath (emit (Log ''  [INFO] Downloading...'') st) of
           None \<Rightarrow> None
         | Some (Rejected e, st') \<Rightarrow> Some (FetchFailed, emit (Log ''  [x] Download failed'') st')
         | Some (Pending, st') \<Rightarrow> Some (FetchPending, st')
         | Some (Resolved, st') \<Rightarrow> Some (Fetched, st'))
      else Some (Fetched, emit (Log ''  [INFO] Archive already downloaded'') st))"

text \<open>The \<open>try\<close> block of the extraction, up to the first error thrown.\<close>

definition extractAndMove ::
  "extractor \<Rightarrow> string \<Rightarrow> platform_config \<Rightarrow> path \<Rightarrow> path \<Rightarrow> path \<Rightarrow> state
     \<Rightarrow> (js_error + unit) \<times> state" where
  "extractAndMove extract platform config archivePath extractDir finalDir st =
     (case extract (archive config) archivePath extractDir (files st) of
        (Some e, fs') \<Rightarrow> (Inl e, st\<lparr>files := fs'\<rparr>)
      | (None, fs') \<Rightarrow>
          (let st1 = emit (Log ''  [INFO] Checking extracted contents...'')
                       (emit (Log ''  [v] Extracted'') (st\<lparr>files := fs'\<rparr>))
           in case readdirSync (files st1) extractDir of
                Inl e \<Rightarrow> (Inl e, st1)
              | Inr extractedItems \<Rightarrow>
                  (let st2 = emit (Log (''  [DEBUG] Found '' @ showNat (length extractedItems)
                                          @ '' items: '' @ join '', '' extractedItems)) st1
                   in case config_jdkPath (layout config) (files st2) extractDir of
                        Inl e \<Rightarrow> (Inl e, st2)
                      | Inr jdk \<Rightarrow>
                          if \<not> existsSync (files st2) jdk then
                            (Inl JdkNotFound,
                             emit (Log (''  [DEBUG] JDK path not found: '' @ path_str jdk)) st2)
                          else
                            (let st3 = emit (Log (''  [INFO] Found JDK at: '' @ basename jdk)) st2
                             in if \<not> existsSync (files st3) (jdk @ [''bin'', jlinkExe platform]) then
                                  (Inl JlinkNotFound,
                                   emit (Log (''  [DEBUG] jlink not found at: ''
                                              @ path_str (jdk @ [''bin'', jlinkExe platform]))) st3)
                                else
                                  (let st4 = emit (Log (''  [v] Verified: '' @ jlinkExe platform @ '' exists'')) st3;
                                       st5 = (if existsSync (files st4) finalDir
                                              then withFiles (\<lambda>fs. rmSync fs finalDir) st4 else st4);
                                       st6 = withFiles (\<lambda>fs. renameSync fs jdk finalDir) st5;
                                       st7 = withFiles (\<lambda>fs. rmSync fs extractDir) st6
                                   in (Inr (), emit (Log (''  [v] Ready at: '' @ path_str finalDir)) st7))))))"

text \<open>"Clean temp extraction directory", the \<open>try\<close> block and its \<open>catch\<close>.\<close>

definition extractPlatform ::
  "extractor \<Rightarrow> string \<Rightarrow> platform_config \<Rightarrow> path \<Rightarrow> path \<Rightarrow> path \<Rightarrow> state \<Rightarrow> state" where
  "extractPlatform extract platform config archivePath extractDir finalDir st =
     (let st1 = (if existsSync (files st) extractDir
                 then withFiles (\<lambda>fs. rmSync fs extractDir) st else st);
          st2 = withFiles (\<lambda>fs. mkdirs fs extractDir (length extractDir)) st1
      in case extractAndMove extract platform config archivePath extractDir finalDir st2 of
           (Inr _, st3) \<Rightarrow> st3
         | (Inl e, st3) \<Rightarrow>
             (let st4 = emit (Log ''  [x] Extraction failed'') st3
              in if existsSync (files st4) extractDir
                 then withFiles (\<lambda>fs. rmSync fs extractDir) st4 else st4))"

text \<open>The line \<open>[i/n] platform:\<close> that begins the step of a platform.\<close>

definition platformLine :: "string list \<Rightarrow> string \<Rightarrow> event" where
  "platformLine names platform =
     Log (''['' @ showNat (if platform \<in> set names
                           then length (takeWhile (\<lambda>n. n \<noteq> platform) names) + 1 else 0)
          @ ''/'' @ showNat (length names) @ ''] '' @ platform @ '':'')"

text \<open>\<open>downloadAndExtractPlatform\<close>: the promise of the \<open>async\<close> function. It is
  rejected by an error thrown outside the two \<open>try\<close> blocks, and never settles when the
  download that it awaits never settles.\<close>

definition downloadAndExtractPlatform ::
  "network \<Rightarrow> extractor \<Rightarrow> string \<Rightarrow> string list \<Rightarrow> string \<Rightarrow> platform_config \<Rightarrow> state
     \<Rightarrow> (promise \<times> state) option" where
  "downloadAndExtractPlatform net extract v names platform config st =
     (let archivePath = DOWNLOAD_DIR @ [archiveName config];
          extractDir = DOWNLOAD_DIR @ [''jdk-'' @ v @ ''-'' @ platform @ ''-temp''];
          finalDir = DOWNLOAD_DIR @ [''jdk-'' @ v @ ''-'' @ platform];
          st0 = emit (platformLine names platform) st
      in case verifyExisting platform config finalDir st0 of
           (Inl e, st1) \<Rightarrow> Some (Rejected e, st1)
         | (Inr True, st1) \<Rightarrow> Some (Resolved, st1)
         | (Inr False, st1) \<Rightarrow>
             (case fetchArchive net config archivePath st1 of
                None \<Rightarrow> None
              | Some (FetchFailed, st2) \<Rightarrow> Some (Resolved, st2)
              | Some (FetchPending, st2) \<Rightarrow> Some (Pending, st2)
              | Some (Fetched, st2) \<Rightarrow>
                  Some (Resolved, extractPlatform extract platform config archivePath extractDir finalDir st2)))"

text \<open>
  The loop of \<open>main\<close> over the platform table: \<open>await\<close> goes on to the next platform
  when the promise of the step is resolved. A rejected promise leaves the loop and rejects
  \<open>main\<close>; a promise that never settles leaves \<open>main\<close> waiting.
\<close>

fun downloadAll ::
  "network \<Rightarrow> extractor \<Rightarrow> string \<Rightarrow> string list \<Rightarrow> (string \<times> platform_config) list \<Rightarrow> state
     \<Rightarrow> (promise \<times> state) option" where
  "downloadAll net extract v names [] st = Some (Resolved, st)"
| "downloadAll net extract v names ((platform, config) # rest) st =
     (case downloadAndExtractPlatform net extract v names platform config st of
        None \<Rightarrow> None
      | Some (Resolved, st') \<Rightarrow> downloadAll net extract v names rest st'
      | Some (r, st') \<Rightarrow> Some (r, st'))"

text \<open>
  The script as a whole: the exit status of the process and the final state. Nothing in
  the script sets an exit status except the check of the version:
  \<open>main().catch(console.error)\<close> prints the error of a rejected \<open>main\<close>, and a \<open>main\<close>
  left waiting prints nothing more.
\<close>

definition main_download ::
  "network \<Rightarrow> extractor \<Rightarrow> string \<Rightarrow> state \<Rightarrow> (nat \<times> state) option" where
  "main_download net extract v st =
     (case getPlatformConfig v of
        None \<Rightarrow> Some (1, emit (Log (''Unsupported JDK version: '' @ v)) st)
      | Some PLATFORMS \<Rightarrow>
          (let st1 = (if \<not> existsSync (files st) DOWNLOAD_DIR
                      then withFiles (\<lambda>fs. mkdirs fs DOWNLOAD_DIR (length DOWNLOAD_DIR)) st else st)
           in case downloadAll net extract v (map fst PLATFORMS) PLATFORMS st1 of
                None \<Rightarrow> None
              | Some (Rejected e, st2) \<Rightarrow> Some (0, emit (Log ''[console.error] uncaught error'') st2)
              | Some (Pending, st2) \<Rightarrow> Some (0, st2)
              | Some (Resolved, st2) \<Rightarrow> Some (0, emit (Log ''Download Complete!'') st2)))"

text \<open>The events of a download: its requests, and the line of the \<open>finish\<close>
  listener.\<close>

definition downloadEvent :: "event \<Rightarrow> bool" where
  "downloadEvent e = (case e of HttpGet u \<Rightarrow> True | Log l \<Rightarrow> l = ''  [v] Downloaded'' | _ \<Rightarrow> False)"



text \<open>A network on which every request fails, and an extractor that is never
  reached with it.\<close>

definition net_down :: network where
  "net_down history u = RequestError"

definition no_extractor :: extractor where
  "no_extractor t a d fs = (Some ToolError, fs)"

definition st_empty :: state where
  "st_empty = \<lparr>files = [], events = []\<rparr>"

text \<open>A network that redirects the first request and then lets the write stream fail
  after 4096 bytes of the body.\<close>

definition net_redirect_fail :: network where
  "net_redirect_fail history u =
     (if history = [] then Response 302 (Some ''https://mirror.example/jdk.zip'') (Finished 0)
      else Response 200 None (FileError 4096))"

text \<open>A server that redirects every absolute address to the relative address
  \<open>/latest/jdk.zip\<close>, which \<open>protocol.get\<close> does not accept.\<close>

definition net_relative_redirect :: network where
  "net_relative_redirect history u =
     (if startsWith u ''http://'' \<or> startsWith u ''https://''
      then Response 302 (Some ''/latest/jdk.zip'') (Finished 0)
      else GetThrows)"

text \<open>A server that answers every request with status 200 and closes the connection
  after 4096 bytes of the body.\<close>

definition net_stall :: network where
  "net_stall history u = Response 200 None (CutShort 4096)"

text \<open>What the error handlers of \<open>downloadFile\<close> achieve: a promise rejected by a
  request error, a stream error or an HTTP status leaves no file at the destination.\<close>

definition cleanFailure :: "path \<Rightarrow> promise \<times> state \<Rightarrow> bool" where
  "cleanFailure dest y =
     (\<forall>e st'. y = (Rejected e, st') \<longrightarrow>
          (e = RequestFailed \<or> e = StreamFailed \<or> (\<exists>code. e = HttpError code)) \<longrightarrow>
          \<not> existsSync (files st') dest)"

text \<open>A downloads directory that holds the Linux archive of JDK 21, of 190 MB.\<close>

definition st_archive :: state where
  "st_archive =
     \<lparr>files =
        [([''jdk-downloads''], Dir 0),
         ([''jdk-downloads'', ''OpenJDK21U-jdk_x64_linux_hotspot_21.0.5_11.tar.gz''],
            File 0 199229440 [])],
      events = []\<rparr>"

definition linux_x64_21 :: platform_config where
  "linux_x64_21 =
     \<lparr>url = ''https://github.com/adoptium/temurin21-binaries/releases/download/jdk-21.0.5%2B11/OpenJDK21U-jdk_x64_linux_hotspot_21.0.5_11.tar.gz'',
      archive = TarGz, layout = Direct\<rparr>"

section \<open>create-portable.js\<close>

definition VERSION :: string where
  "VERSION = ''1.0.0''"

definition PORTABLE_DIR :: path where
  "PORTABLE_DIR = [''portable-releases'']"

definition JRE_DIR :: path where
  "JRE_DIR = [''jre-builds'']"

definition JARS_DIR :: path where
  "JARS_DIR = [''jars'']"

text \<open>\<open>findJarFiles\<close>, which fills the constant \<open>JAR_FILES\<close> when the module is loaded.\<close>

definition findJarFiles :: "fs \<Rightarrow> js_error + path list" where
  "findJarFiles fs =
     (if \<not> existsSync fs JARS_DIR then Inr []
      else case readdirSync fs JARS_DIR of
             Inl e \<Rightarrow> Inl e
           | Inr names \<Rightarrow> Inr (map (\<lambda>f. JARS_DIR @ [f]) (filter (\<lambda>f. endsWith f ''.jar'') names)))"

text \<open>
  \<open>copyDirectory\<close> walks the source tree and copies every entry below it; on the flat
  file system that is one pass over the entries that have the source as a proper prefix.
  \<open>copyFileSync\<close> copies one file and throws when the source is missing or a directory.
  Each yields the error thrown, if any, and the file system it leaves: what was created
  or copied before an error stays.
\<close>

definition copyDirectory :: "fs \<Rightarrow> path \<Rightarrow> path \<Rightarrow> js_error option \<times> fs" where
  "copyDirectory fs src dest =
     (let fs1 = (if \<not> existsSync fs dest then mkdirs fs dest (length dest) else fs)
      in case readdirSync fs1 src of
           Inl e \<Rightarrow> (Some e, fs1)
         | Inr names \<Rightarrow>
             (let copies = map (\<lambda>(q, n). (dest @ drop (length src) q, n))
                             (filter (\<lambda>(q, n). strict_prefix src q) fs1)
              in (None, filter (\<lambda>(q, n). q \<notin> set (map fst copies)) fs1 @ copies)))"

definition copyFileSync :: "fs \<Rightarrow> path \<Rightarrow> path \<Rightarrow> js_error + fs" where
  "copyFileSync fs src dest =
     (case map_of fs src of
        None \<Rightarrow> Inl ENOENT
      | Some (Dir _) \<Rightarrow> Inl EISDIR
      | Some (File t n c) \<Rightarrow> Inr (unlinkSync fs dest @ [(dest, File 0 n c)]))"

text \<open>The loop "Copy JAR files".\<close>

fun copyJars :: "fs \<Rightarrow> path list \<Rightarrow> path \<Rightarrow> js_error option \<times> fs" where
  "copyJars fs [] pkgDir = (None, fs)"
| "copyJars fs (jarFile # rest) pkgDir =
     (case copyFileSync fs jarFile (pkgDir @ [basename jarFile]) of
        Inl e \<Rightarrow> (Some e, fs)
      | Inr fs' \<Rightarrow> copyJars fs' rest pkgDir)"

definition writeFileSync :: "fs \<Rightarrow> path \<Rightarrow> string \<Rightarrow> fs" where
  "writeFileSync fs p text = unlinkSync fs p @ [(p, File 0 (length text) text)]"

text \<open>The launcher scripts and the usage document; of their text the model keeps the
  line that names the first artifact, and the title. \<open>path.basename(jarFiles[0])\<close>
  throws a TypeError on an empty list.\<close>

definition createLauncherWindows :: "path \<Rightarrow> path list \<Rightarrow> state \<Rightarrow> js_error + state" where
  "createLauncherWindows pkgDir jarFiles st =
     (case jarFiles of
        [] \<Rightarrow> Inl TypeError
      | first # _ \<Rightarrow>
          Inr (log_info ''Created launcher: launch.bat''
                 (withFiles (\<lambda>fs. writeFileSync fs (pkgDir @ [''launch.bat''])
                                    (''set JAR_FILE=%APP_DIR%'' @ basename first)) st)))"

definition createLauncherUnix :: "path \<Rightarrow> path list \<Rightarrow> state \<Rightarrow> js_error + state" where
  "createLauncherUnix pkgDir jarFiles st =
     (case jarFiles of
        [] \<Rightarrow> Inl TypeError
      | first # _ \<Rightarrow>
          Inr (log_info ''Created launcher: launch.sh''
                 (withFiles (\<lambda>fs. writeFileSync fs (pkgDir @ [''launch.sh''])
                                    (''JAR_FILE=$APP_DIR/'' @ basename first)) st)))"

definition createReadme :: "string \<Rightarrow> path \<Rightarrow> state \<Rightarrow> state" where
  "createReadme platform pkgDir st =
     log_info ''Created README: README.txt''
       (withFiles (\<lambda>fs. writeFileSync fs (pkgDir @ [''README.txt''])
                          ''Aspose.Words Portable Edition'') st)"

text \<open>
  The archive library is a parameter: asked for a zip or a gzipped tar of a package
  directory at an archive path, it yields the error that rejects the promise, if any, and
  the file system that it leaves.
\<close>

type_synonym archiver = "bool \<Rightarrow> path \<Rightarrow> path \<Rightarrow> fs \<Rightarrow> js_error option \<times> fs"

text \<open>The \<open>try\<close> block "Create archive" with its \<open>catch\<close> (the size of the archive
  is read with \<open>statSync\<close>, which throws when the archive is not there).\<close>

definition createArchive :: "archiver \<Rightarrow> string \<Rightarrow> path \<Rightarrow> state \<Rightarrow> bool \<times> state" where
  "createArchive arch platform pkgDir st =
     (let st1 = log_info ''Creating archive...'' st;
          asZip = (platform = ''windows'');
          archivePath = butlast pkgDir @ [basename pkgDir @ (if asZip then ''.zip'' else ''.tar.gz'')]
      in case arch asZip pkgDir archivePath (files st1) of
           (Some e, fs') \<Rightarrow> (False, log_error ''Failed to create archive'' (st1\<lparr>files := fs'\<rparr>))
         | (None, fs') \<Rightarrow>
             if existsSync fs' archivePath
             then (True, log_success (''Created: '' @ basename archivePath) (st1\<lparr>files := fs'\<rparr>))
             else (False, log_error ''Failed to create archive'' (st1\<lparr>files := fs'\<rparr>)))"

text \<open>\<open>createPortablePackage\<close>, from the end: the launcher, the usage document and
  the archive; before them the copy of the artifacts; before it the copy of the runtime;
  and the checks that come first.\<close>

definition finishPackage ::
  "archiver \<Rightarrow> path list \<Rightarrow> string \<Rightarrow> path \<Rightarrow> state \<Rightarrow> (js_error + bool) \<times> state" where
  "finishPackage arch JAR_FILES platform pkgDir st =
     (case (if platform = ''windows''
            then createLauncherWindows pkgDir JAR_FILES st
            else createLauncherUnix pkgDir JAR_FILES st) of
        Inl e \<Rightarrow> (Inl e, st)
      | Inr st5 \<Rightarrow>
          (case createArchive arch platform pkgDir
                  (log_info ''Package size'' (createReadme platform pkgDir st5)) of
             (ok, st7) \<Rightarrow> (Inr ok, st7)))"

definition copyArtifacts ::
  "archiver \<Rightarrow> path list \<Rightarrow> string \<Rightarrow> path \<Rightarrow> state \<Rightarrow> (js_error + bool) \<times> state" where
  "copyArtifacts arch JAR_FILES platform pkgDir st =
     (let st4 = log_info (''Copying '' @ showNat (length JAR_FILES) @ '' JAR file(s)...'') st
      in case copyJars (files st4) JAR_FILES pkgDir of
           (Some e, fs5) \<Rightarrow> (Inl e, st4\<lparr>files := fs5\<rparr>)
         | (None, fs5) \<Rightarrow> finishPackage arch JAR_FILES platform pkgDir (st4\<lparr>files := fs5\<rparr>))"

definition copyRuntime ::
  "archiver \<Rightarrow> path list \<Rightarrow> string \<Rightarrow> path \<Rightarrow> path \<Rightarrow> state \<Rightarrow> (js_error + bool) \<times> state" where
  "copyRuntime arch JAR_FILES platform jrePath pkgDir st =
     (let st2 = (if existsSync (files st) pkgDir
                 then withFiles (\<lambda>fs. rmSync fs pkgDir) st else st);
          st3 = log_info ''Copying JRE...'' (ensureDir pkgDir st2)
      in case copyDirectory (files st3) jrePath (pkgDir @ [''jre'']) of
           (Some e, fs4) \<Rightarrow> (Inl e, st3\<lparr>files := fs4\<rparr>)
         | (None, fs4) \<Rightarrow> copyArtifacts arch JAR_FILES platform pkgDir (st3\<lparr>files := fs4\<rparr>))"

definition createPortablePackage ::
  "archiver \<Rightarrow> path list \<Rightarrow> string \<Rightarrow> string \<Rightarrow> string \<Rightarrow> state \<Rightarrow> (js_error + bool) \<times> state" where
  "createPortablePackage arch JAR_FILES platform cpu jreName st =
     (let st1 = log_step (''Building portable package: '' @ platform @ ''-'' @ cpu) st;
          jrePath = JRE_DIR @ [jreName]
      in if \<not> existsSync (files st1) jrePath then
           (Inr False,
            log_info ''Please run node build-jre-all-platforms.js first''
              (log_error (''JRE not found: '' @ path_str jrePath) st1))
         else if length JAR_FILES = 0 then
           (Inr False,
            log_info ''Please add JAR files to the jars/ directory''
              (log_error (''No JAR files found in: '' @ path_str JARS_DIR) st1))
         else
           copyRuntime arch JAR_FILES platform jrePath
             (PORTABLE_DIR @ [''aspose-words-'' @ VERSION @ ''-'' @ platform @ ''-'' @ cpu @ ''-portable''])
             st1)"


definition platforms :: "(string \<times> string \<times> string) list" where
  "platforms =
     [(''windows'', ''x64'', ''jre-win-x64''),
      (''macos'', ''x64'', ''jre-mac-x64''),
      (''macos'', ''arm64'', ''jre-mac-arm64''),
      (''linux'', ''x64'', ''jre-linux-x64''),
      (''linux'', ''arm64'', ''jre-linux-arm64'')]"

definition targetName :: "string \<times> string \<times> string \<Rightarrow> string" where
  "targetName p = fst p @ ''-'' @ fst (snd p)"

text \<open>The loop over \<open>platforms\<close> in \<open>main\<close>, with its \<open>try\<close> and \<open>catch\<close>.\<close>

fun runPackages ::
  "archiver \<Rightarrow> path list \<Rightarrow> (string \<times> string \<times> string) list \<Rightarrow> (string \<times> bool) list \<Rightarrow> state
     \<Rightarrow> (string \<times> bool) list \<times> state" where
  "runPackages arch JAR_FILES [] results st = (results, st)"
| "runPackages arch JAR_FILES (p # rest) results st =
     (case createPortablePackage arch JAR_FILES (fst p) (fst (snd p)) (snd (snd p)) st of
        (Inr ok, st') \<Rightarrow> runPackages arch JAR_FILES rest (obj_set results (targetName p) ok) st'
      | (Inl e, st') \<Rightarrow>
          runPackages arch JAR_FILES rest (obj_set results (targetName p) False)
            (log_error (''Failed to create '' @ targetName p) st'))"




definition packageBatch ::
  "archiver \<Rightarrow> path list \<Rightarrow> state \<Rightarrow> (string \<times> bool) list \<times> state" where
  "packageBatch arch JAR_FILES st =
     runPackages arch JAR_FILES platforms []
       (log_info ''Building portable versions for all platforms...'' st)"






section \<open>Properties of the JDK version selection\<close>

lemma set_set_add: "set (set_add s x) = insert x (set s)"
  by (auto simp: set_add_def)

lemma distinct_set_add: "distinct s \<Longrightarrow> distinct (set_add s x)"
  by (auto simp: set_add_def)

lemma set_foldl_versions:
  "set (foldl (\<lambda>vs d. case match_jdk d of Some v \<Rightarrow> set_add vs v | None \<Rightarrow> vs) acc dirs)
     = set acc \<union> {v. \<exists>d\<in>set dirs. match_jdk d = Some v}"
  by (induction dirs arbitrary: acc) (auto simp: set_set_add split: option.splits)

lemma set_collectVersions:
  "set (collectVersions dirs) = {v. \<exists>d\<in>set dirs. match_jdk d = Some v}"
  by (simp add: collectVersions_def set_foldl_versions)

lemma match_jdk_Some: "match_jdk d = Some v \<Longrightarrow> v \<noteq> [] \<and> prefix ''jdk-'' d"
  by (auto simp: match_jdk_def split: if_splits)

text \<open>Every name of the shape \<open>jdk-<N>-...\<close> matches, with version \<open>N\<close>.\<close>

lemma match_jdk_shape:
  assumes "ds \<noteq> []" and "list_all isDigit ds"
  shows "match_jdk (''jdk-'' @ ds @ ''-'' @ rest) = Some ds"
proof -
  have nd: "\<not> isDigit CHR ''-''" by (simp add: isDigit_def)
  have "takeWhile isDigit (ds @ ''-'' @ rest) = ds"
    using assms(2) nd by (induction ds) auto
  then show ?thesis using assms(1) by (simp add: match_jdk_def)
qed

lemma set_insert_by [simp]: "set (insert_by cmp x ys) = insert x (set ys)"
  by (induction ys) auto

lemma set_sort_by [simp]: "set (sort_by cmp xs) = set xs"
  by (induction xs) (simp_all add: sort_by_def)

lemma sort_by_Nil: "sort_by cmp xs = [] \<longleftrightarrow> xs = []"
  by (metis set_sort_by set_empty)

lemma compareVersions_le: "compareVersions x y \<le> 0 \<longleftrightarrow> parseInt y \<le> parseInt x"
  by (auto simp: compareVersions_def)

lemma sorted_insert_by:
  assumes "sorted_wrt (\<lambda>a b. parseInt b \<le> parseInt a) ys"
  shows "sorted_wrt (\<lambda>a b. parseInt b \<le> parseInt a) (insert_by compareVersions x ys)"
  using assms
proof (induction ys)
  case Nil
  then show ?case by simp
next
  case (Cons y ys)
  show ?case
  proof (cases "compareVersions x y \<le> 0")
    case True
    then have yx: "parseInt y \<le> parseInt x" by (simp add: compareVersions_le)
    have "\<forall>z\<in>set ys. parseInt z \<le> parseInt x"
    proof
      fix z assume "z \<in> set ys"
      with Cons.prems have "parseInt z \<le> parseInt y" by simp
      then show "parseInt z \<le> parseInt x" using yx by (rule order_trans)
    qed
    with True yx Cons.prems show ?thesis by simp
  next
    case False
    then have xy: "parseInt x \<le> parseInt y" by (simp add: compareVersions_le)
    from Cons.prems have "sorted_wrt (\<lambda>a b. parseInt b \<le> parseInt a) ys" by simp
    then have "sorted_wrt (\<lambda>a b. parseInt b \<le> parseInt a) (insert_by compareVersions x ys)"
      by (rule Cons.IH)
    with False xy Cons.prems show ?thesis by simp
  qed
qed

lemma sorted_sortDescending:
  "sorted_wrt (\<lambda>a b. parseInt b \<le> parseInt a) (sortDescending vs)"
  by (induction vs) (simp_all add: sortDescending_def sort_by_def sorted_insert_by)

lemma sortDescending_head:
  assumes "sortDescending vs = r # rest"
  shows "r \<in> set vs \<and> (\<forall>v\<in>set vs. parseInt v \<le> parseInt r)"
proof -
  have s: "sorted_wrt (\<lambda>a b. parseInt b \<le> parseInt a) (r # rest)"
    using sorted_sortDescending[of vs] assms by simp
  have "set (sortDescending vs) = set vs" by (simp add: sortDescending_def)
  with assms have m: "set (r # rest) = set vs" by simp
  from m have r: "r \<in> set vs" by auto
  have "\<forall>v\<in>set vs. parseInt v \<le> parseInt r"
  proof
    fix v assume "v \<in> set vs"
    with m have "v = r \<or> v \<in> set rest" by auto
    with s show "parseInt v \<le> parseInt r" by auto
  qed
  with r show ?thesis by simp
qed

lemma sortDescending_Nil: "sortDescending vs = [] \<longleftrightarrow> vs = []"
  by (simp add: sortDescending_def sort_by_Nil)

text \<open>The digits are read as the claim reads them, and below \<open>2^53\<close> the Number is
  that integer.\<close>

lemma foldl_digits_snoc:
  "foldl (\<lambda>a c. 10 * a + digitVal c) 0 (s @ [c]) = 10 * foldl (\<lambda>a c. 10 * a + digitVal c) 0 s + digitVal c"
  by simp

lemma versionNumber_snoc: "versionNumber (s @ [c]) = 10 * versionNumber s + digitVal c"
proof -
  have "versionNumber (s @ [c]) = (\<Sum>i<Suc (length s). digitVal ((c # rev s) ! i) * 10 ^ i)"
    by (simp add: versionNumber_def)
  also have "\<dots> = digitVal c + (\<Sum>i<length s. digitVal (rev s ! i) * 10 ^ Suc i)"
    by (subst sum.lessThan_Suc_shift) simp
  also have "(\<Sum>i<length s. digitVal (rev s ! i) * 10 ^ Suc i)
               = (\<Sum>i<length s. 10 * (digitVal (rev s ! i) * 10 ^ i))"
    by (rule sum.cong) simp_all
  also have "\<dots> = 10 * versionNumber s"
    by (simp only: versionNumber_def sum_distrib_left)
  finally show ?thesis by simp
qed

lemma versionNumber_horner: "versionNumber s = foldl (\<lambda>a c. 10 * a + digitVal c) 0 s"
proof (induction s rule: rev_induct)
  case Nil
  then show ?case by (simp add: versionNumber_def)
next
  case (snoc c s)
  then show ?case by (simp add: versionNumber_snoc)
qed

lemma parseInt_exact: "versionNumber s < 2 ^ 53 \<Longrightarrow> parseInt s = enat (versionNumber s)"
  by (simp add: parseInt_def toNumber_def versionNumber_horner)

text \<open>The selection, with the values that the comparator sees.\<close>

lemma JDK_VERSION_unset_selects:
  assumes e: "env = None \<or> env = Some []"
    and a: "isDirectory fs JDK_DIR"
    and b: "\<exists>d\<in>set (entries fs JDK_DIR). isDirectory fs (JDK_DIR @ [d]) \<and> match_jdk d \<noteq> None"
  shows "\<exists>d\<in>set (entries fs JDK_DIR). isDirectory fs (JDK_DIR @ [d]) \<and>
           (\<exists>r. match_jdk d = Some r \<and> JDK_VERSION env fs = Inr r \<and>
                (\<forall>d'\<in>set (entries fs JDK_DIR). \<forall>v. isDirectory fs (JDK_DIR @ [d']) \<and>
                     match_jdk d' = Some v \<longrightarrow> parseInt v \<le> parseInt r))"
proof -
  define dirs where
    "dirs = filter (\<lambda>d. isDirectory fs (JDK_DIR @ [d]) \<and> prefix ''jdk-'' d) (entries fs JDK_DIR)"
  have ex: "existsSync fs JDK_DIR" and rd: "readdirSync fs JDK_DIR = Inr (entries fs JDK_DIR)"
    using a by (auto simp: isDirectory_def existsSync_def readdirSync_def
                     split: option.splits node.splits)
  have vs: "set (collectVersions dirs) =
      {v. \<exists>d\<in>set (entries fs JDK_DIR). isDirectory fs (JDK_DIR @ [d]) \<and> match_jdk d = Some v}"
    unfolding set_collectVersions dirs_def using match_jdk_Some by auto
  from b obtain d0 v0 where "d0 \<in> set (entries fs JDK_DIR)"
      "isDirectory fs (JDK_DIR @ [d0])" "match_jdk d0 = Some v0"
    by auto
  then have "v0 \<in> set (collectVersions dirs)" unfolding vs by blast
  then have ne: "collectVersions dirs \<noteq> []" by auto
  then have dne: "dirs \<noteq> []" by (auto simp: collectVersions_def)
  from ne obtain r rest where sd: "sortDescending (collectVersions dirs) = r # rest"
    using sortDescending_Nil by (cases "sortDescending (collectVersions dirs)") auto
  from sortDescending_head[OF sd] have rin: "r \<in> set (collectVersions dirs)"
    and rmax: "\<forall>v\<in>set (collectVersions dirs). parseInt v \<le> parseInt r" by auto
  from rin vs obtain d where d: "d \<in> set (entries fs JDK_DIR)"
      "isDirectory fs (JDK_DIR @ [d])" "match_jdk d = Some r"
    by auto
  then have rne: "r \<noteq> []" using match_jdk_Some by blast
  have det: "detectAvailableJDK fs = Inr (Some r)"
    using ex rd dne ne sd by (simp add: detectAvailableJDK_def dirs_def[symmetric] Let_def)
  have res: "JDK_VERSION env fs = Inr r"
    using e det rne by (cases r) (auto simp: JDK_VERSION_def)
  have "\<forall>d'\<in>set (entries fs JDK_DIR). \<forall>v. isDirectory fs (JDK_DIR @ [d']) \<and>
                       match_jdk d' = Some v \<longrightarrow> parseInt v \<le> parseInt r"
    using rmax vs by auto
  with d res show ?thesis by blast
qed

lemma JDK_VERSION_unset_default:
  assumes e: "env = None \<or> env = Some []"
    and b: "\<not> existsSync fs JDK_DIR \<or>
           (isDirectory fs JDK_DIR \<and>
            \<not> (\<exists>d\<in>set (entries fs JDK_DIR). isDirectory fs (JDK_DIR @ [d]) \<and> match_jdk d \<noteq> None))"
  shows "JDK_VERSION env fs = Inr ''21''"
proof (cases "existsSync fs JDK_DIR")
  case False
  then show ?thesis using e by (auto simp: JDK_VERSION_def detectAvailableJDK_def)
next
  case True
  with b have dir: "isDirectory fs JDK_DIR"
    and none: "\<not> (\<exists>d\<in>set (entries fs JDK_DIR). isDirectory fs (JDK_DIR @ [d]) \<and> match_jdk d \<noteq> None)"
    by auto
  define dirs where
    "dirs = filter (\<lambda>d. isDirectory fs (JDK_DIR @ [d]) \<and> prefix ''jdk-'' d) (entries fs JDK_DIR)"
  have rd: "readdirSync fs JDK_DIR = Inr (entries fs JDK_DIR)"
    using dir by (auto simp: isDirectory_def readdirSync_def split: option.splits node.splits)
  have "set (collectVersions dirs) = {}"
    unfolding set_collectVersions dirs_def using none by auto
  then have "collectVersions dirs = []" by simp
  then have "detectAvailableJDK fs = Inr None"
    using True rd by (simp add: detectAvailableJDK_def dirs_def[symmetric] Let_def)
  then show ?thesis using e by (auto simp: JDK_VERSION_def)
qed

text \<open>
  Claim C10, as the code has it. When the environment variable \<open>JDK_VERSION\<close> is unset
  (or empty), the JRE build script takes its version from the directories of the downloads
  directory whose names match \<open>jdk-<N>\<close>. If every such \<open>N\<close> is below \<open>2^53\<close>, the
  selected version is the digit string of one of these directories, and the integer it
  denotes is at least that of every other one (so \<open>jdk-9-...\<close> loses to \<open>jdk-17-...\<close>,
  which a comparison of strings would get wrong). When the downloads directory is missing,
  or holds no such directory, the version is \<open>21\<close>.
\<close>

theorem JDK_VERSION_unset_highest:
  assumes "env = None \<or> env = Some []"
    and "\<forall>d\<in>set (entries fs JDK_DIR). \<forall>v. isDirectory fs (JDK_DIR @ [d]) \<and> match_jdk d = Some v
           \<longrightarrow> versionNumber v < 2 ^ 53"
  shows "(isDirectory fs JDK_DIR \<and>
           (\<exists>d\<in>set (entries fs JDK_DIR). isDirectory fs (JDK_DIR @ [d]) \<and> match_jdk d \<noteq> None)
          \<longrightarrow> (\<exists>d\<in>set (entries fs JDK_DIR). isDirectory fs (JDK_DIR @ [d]) \<and>
                 (\<exists>r. match_jdk d = Some r \<and> JDK_VERSION env fs = Inr r \<and>
                  (\<forall>d'\<in>set (entries fs JDK_DIR). \<forall>v. isDirectory fs (JDK_DIR @ [d']) \<and>
                       match_jdk d' = Some v \<longrightarrow> versionNumber v \<le> versionNumber r))))
       \<and> (\<not> existsSync fs JDK_DIR \<or>
           (isDirectory fs JDK_DIR \<and>
            \<not> (\<exists>d\<in>set (entries fs JDK_DIR). isDirectory fs (JDK_DIR @ [d]) \<and> match_jdk d \<noteq> None))
          \<longrightarrow> JDK_VERSION env fs = Inr ''21'')"
proof (intro conjI impI)
  assume a: "isDirectory fs JDK_DIR \<and>
     (\<exists>d\<in>set (entries fs JDK_DIR). isDirectory fs (JDK_DIR @ [d]) \<and> match_jdk d \<noteq> None)"
  from JDK_VERSION_unset_selects[OF assms(1)] a
  obtain d r where d: "d \<in> set (entries fs JDK_DIR)" "isDirectory fs (JDK_DIR @ [d])"
      "match_jdk d = Some r" "JDK_VERSION env fs = Inr r"
    and mx: "\<forall>d'\<in>set (entries fs JDK_DIR). \<forall>v. isDirectory fs (JDK_DIR @ [d']) \<and>
                     match_jdk d' = Some v \<longrightarrow> parseInt v \<le> parseInt r"
    by blast
  from assms(2) d have er: "parseInt r = enat (versionNumber r)"
    by (intro parseInt_exact) blast
  have "\<forall>d'\<in>set (entries fs JDK_DIR). \<forall>v. isDirectory fs (JDK_DIR @ [d']) \<and>
                       match_jdk d' = Some v \<longrightarrow> versionNumber v \<le> versionNumber r"
  proof (intro ballI allI impI)
    fix d' v assume d': "d' \<in> set (entries fs JDK_DIR)"
      and m: "isDirectory fs (JDK_DIR @ [d']) \<and> match_jdk d' = Some v"
    from assms(2) d' m have "parseInt v = enat (versionNumber v)"
      by (intro parseInt_exact) blast
    moreover from mx d' m have "parseInt v \<le> parseInt r" by blast
    ultimately show "versionNumber v \<le> versionNumber r" using er by simp
  qed
  with d show "\<exists>d\<in>set (entries fs JDK_DIR). isDirectory fs (JDK_DIR @ [d]) \<and>
                 (\<exists>r. match_jdk d = Some r \<and> JDK_VERSION env fs = Inr r \<and>
                  (\<forall>d'\<in>set (entries fs JDK_DIR). \<forall>v. isDirectory fs (JDK_DIR @ [d']) \<and>
                       match_jdk d' = Some v \<longrightarrow> versionNumber v \<le> versionNumber r))"
    by blast
next
  assume b: "\<not> existsSync fs JDK_DIR \<or>
           (isDirectory fs JDK_DIR \<and>
            \<not> (\<exists>d\<in>set (entries fs JDK_DIR). isDirectory fs (JDK_DIR @ [d]) \<and> match_jdk d \<noteq> None))"
  from JDK_VERSION_unset_default[OF assms(1) b] show "JDK_VERSION env fs = Inr ''21''" .
qed

lemma two_jdks_entries:
  "entries fs_two_jdks JDK_DIR = [''jdk-9-linux-x64'', ''jdk-17-linux-x64'', ''jdk-21.zip'']"
  by (simp add: fs_two_jdks_def entries_def JDK_DIR_def)

lemma two_jdks_matches:
  "match_jdk ''jdk-9-linux-x64'' = Some ''9''"
  "match_jdk ''jdk-17-linux-x64'' = Some ''17''"
  by (simp_all add: match_jdk_def isDigit_def)

lemma two_jdks_dirs:
  "isDirectory fs_two_jdks JDK_DIR"
  "isDirectory fs_two_jdks (JDK_DIR @ [''jdk-9-linux-x64''])"
  "isDirectory fs_two_jdks (JDK_DIR @ [''jdk-17-linux-x64''])"
  "\<not> isDirectory fs_two_jdks (JDK_DIR @ [''jdk-21.zip''])"
  by (simp_all add: fs_two_jdks_def isDirectory_def JDK_DIR_def)

lemma two_jdks_numbers: "versionNumber ''9'' = 9" "versionNumber ''17'' = 17"
  by (simp_all add: versionNumber_horner digitVal_def)

theorem JDK_VERSION_unset_highest_witness:
  "JDK_VERSION None fs_two_jdks = Inr ''17'' \<and> JDK_VERSION None [] = Inr ''21''"
proof -
  have bound: "\<forall>d\<in>set (entries fs_two_jdks JDK_DIR). \<forall>v.
      isDirectory fs_two_jdks (JDK_DIR @ [d]) \<and> match_jdk d = Some v \<longrightarrow> versionNumber v < 2 ^ 53"
    unfolding two_jdks_entries using two_jdks_matches two_jdks_dirs two_jdks_numbers by auto
  have h2: "\<exists>d\<in>set (entries fs_two_jdks JDK_DIR).
              isDirectory fs_two_jdks (JDK_DIR @ [d]) \<and> match_jdk d \<noteq> None"
    unfolding two_jdks_entries using two_jdks_matches two_jdks_dirs by auto
  have h3: "\<not> existsSync [] JDK_DIR" by (simp add: existsSync_def)
  from JDK_VERSION_unset_highest [of None fs_two_jdks, OF _ bound] two_jdks_dirs(1) h2
  obtain d r where d: "d \<in> set (entries fs_two_jdks JDK_DIR)"
      "isDirectory fs_two_jdks (JDK_DIR @ [d])" "match_jdk d = Some r"
      "JDK_VERSION None fs_two_jdks = Inr r"
    and mx: "\<forall>d'\<in>set (entries fs_two_jdks JDK_DIR). \<forall>v.
        isDirectory fs_two_jdks (JDK_DIR @ [d']) \<and> match_jdk d' = Some v
          \<longrightarrow> versionNumber v \<le> versionNumber r"
    by blast
  from d(1,2) two_jdks_dirs(4) have "d = ''jdk-9-linux-x64'' \<or> d = ''jdk-17-linux-x64''"
    unfolding two_jdks_entries by auto
  with d(3) two_jdks_matches have r: "r = ''9'' \<or> r = ''17''" by auto
  have "''jdk-17-linux-x64'' \<in> set (entries fs_two_jdks JDK_DIR)"
    unfolding two_jdks_entries by simp
  with mx two_jdks_dirs(3) two_jdks_matches(2) have "versionNumber ''17'' \<le> versionNumber r"
    by blast
  with r two_jdks_numbers have "r = ''17''" by auto
  with d(4) have "JDK_VERSION None fs_two_jdks = Inr ''17''" by simp
  moreover have "\<forall>d\<in>set (entries [] JDK_DIR). \<forall>v.
      isDirectory [] (JDK_DIR @ [d]) \<and> match_jdk d = Some v \<longrightarrow> versionNumber v < 2 ^ 53"
    by (simp add: entries_def)
  from JDK_VERSION_unset_highest [of None "[]", OF _ this] h3
  have "JDK_VERSION None [] = Inr ''21''"
    by blast
  ultimately show ?thesis by blast
qed

text \<open>
  The claim as it was stated, for version numbers of any size, fails on the code: from
  \<open>2^53\<close> on, \<open>parseInt\<close> rounds, distinct version numbers compare as equal, and the
  stable sort leaves the directory that was listed first in front. With \<open>jdk-<2^53>\<close>
  listed before \<open>jdk-<2^53 + 1>\<close> the script selects \<open>2^53\<close>, which is not the
  highest.
\<close>

lemma huge_numbers:
  "versionNumber ''9007199254740992'' = 9007199254740992"
  "versionNumber ''9007199254740993'' = 9007199254740993"
  by (simp_all add: versionNumber_horner digitVal_def)

lemma huge_bitlen: "bitlen 9007199254740992 = 54" "bitlen 9007199254740993 = 54"
  by (simp_all add: bitlen.simps)

lemma huge_toNumber:
  "toNumber 9007199254740992 = enat 9007199254740992"
  "toNumber 9007199254740993 = enat 9007199254740992"
  by (simp_all add: toNumber_def huge_bitlen Let_def)

lemma huge_parseInt:
  "parseInt ''9007199254740992'' = enat 9007199254740992"
  "parseInt ''9007199254740993'' = enat 9007199254740992"
  unfolding parseInt_def versionNumber_horner[symmetric] huge_numbers by (rule huge_toNumber)+

lemma huge_sorted:
  "sortDescending [''9007199254740992'', ''9007199254740993'']
     = [''9007199254740992'', ''9007199254740993'']"
  by (simp add: sortDescending_def sort_by_def compareVersions_def huge_parseInt)

lemma huge_entries:
  "entries fs_huge_jdks JDK_DIR
     = [''jdk-9007199254740992-linux-x64'', ''jdk-9007199254740993-linux-x64'']"
  by (simp add: fs_huge_jdks_def entries_def JDK_DIR_def)

lemma huge_matches:
  "match_jdk ''jdk-9007199254740992-linux-x64'' = Some ''9007199254740992''"
  "match_jdk ''jdk-9007199254740993-linux-x64'' = Some ''9007199254740993''"
  by (simp_all add: match_jdk_def isDigit_def)

lemma huge_dirs:
  "existsSync fs_huge_jdks JDK_DIR"
  "readdirSync fs_huge_jdks JDK_DIR = Inr (entries fs_huge_jdks JDK_DIR)"
  "isDirectory fs_huge_jdks (JDK_DIR @ [''jdk-9007199254740992-linux-x64''])"
  "isDirectory fs_huge_jdks (JDK_DIR @ [''jdk-9007199254740993-linux-x64''])"
  by (simp_all add: fs_huge_jdks_def existsSync_def readdirSync_def isDirectory_def JDK_DIR_def)

lemma huge_detected: "detectAvailableJDK fs_huge_jdks = Inr (Some ''9007199254740992'')"
proof -
  have c: "collectVersions [''jdk-9007199254740992-linux-x64'', ''jdk-9007199254740993-linux-x64'']
             = [''9007199254740992'', ''9007199254740993'']"
    by (simp add: collectVersions_def huge_matches set_add_def)
  show ?thesis
    unfolding detectAvailableJDK_def
    by (simp add: huge_dirs(1,2) huge_entries huge_dirs(3,4) Let_def c huge_sorted)
qed

theorem huge_versions_first_listed_wins:
  "JDK_VERSION None fs_huge_jdks = Inr ''9007199254740992''
   \<and> ''jdk-9007199254740993-linux-x64'' \<in> set (entries fs_huge_jdks JDK_DIR)
   \<and> isDirectory fs_huge_jdks (JDK_DIR @ [''jdk-9007199254740993-linux-x64''])
   \<and> match_jdk ''jdk-9007199254740993-linux-x64'' = Some ''9007199254740993''
   \<and> versionNumber ''9007199254740992'' < versionNumber ''9007199254740993''"
proof -
  have a: "JDK_VERSION None fs_huge_jdks = Inr ''9007199254740992''"
    by (simp add: JDK_VERSION_def huge_detected)
  have b: "''jdk-9007199254740993-linux-x64'' \<in> set (entries fs_huge_jdks JDK_DIR)"
    by (simp add: huge_entries)
  have e: "versionNumber ''9007199254740992'' < versionNumber ''9007199254740993''"
    unfolding huge_numbers by simp
  from a b huge_dirs(4) huge_matches(2) e show ?thesis by blast
qed
section \<open>Properties of the JAR analyzer\<close>

lemma set_foldl_set_add: "set (foldl set_add acc ms) = set acc \<union> set ms"
  by (induction ms arbitrary: acc) (auto simp: set_set_add)

lemma distinct_foldl_set_add: "distinct acc \<Longrightarrow> distinct (foldl set_add acc ms)"
  by (induction ms arbitrary: acc) (auto simp: distinct_set_add)

lemma analyzeOne_allModules:
  "set (allModules (analyzeOne tool win32 jdk count a ij)) =
     set (allModules a) \<union> (case analyzeJAR tool win32 (snd ij) jdk of Some ms \<Rightarrow> set ms | None \<Rightarrow> {})"
  by (simp add: analyzeOne_def Let_def set_foldl_set_add split: option.splits)

lemma analyzeOne_distinct:
  "distinct (allModules a) \<Longrightarrow> distinct (allModules (analyzeOne tool win32 jdk count a ij))"
  by (simp add: analyzeOne_def Let_def distinct_foldl_set_add split: option.splits)

lemma analyzeOne_results:
  "map (\<lambda>x. (jar x, success x)) (jarResults (analyzeOne tool win32 jdk count a ij)) =
     map (\<lambda>x. (jar x, success x)) (jarResults a) @
       [(basename (snd ij), analyzeJAR tool win32 (snd ij) jdk \<noteq> None)]"
  by (simp add: analyzeOne_def Let_def split: option.splits)

lemma analyzeOne_failed_line:
  "analyzeJAR tool win32 (snd ij) jdk = None \<Longrightarrow>
     reportLine (last (jarResults (analyzeOne tool win32 jdk count a ij))) =
        ''  [x] '' @ basename (snd ij) @ '': analysis failed''"
  by (simp add: analyzeOne_def Let_def reportLine_def)

lemma analyzeOne_results_mono:
  "set (jarResults a) \<subseteq> set (jarResults (analyzeOne tool win32 jdk count a ij))"
  by (auto simp: analyzeOne_def Let_def split: option.splits)

lemma analyzeOne_failed_in:
  "analyzeJAR tool win32 (snd ij) jdk = None \<Longrightarrow>
     \<lparr>jar = basename (snd ij), modules = [], success = False\<rparr>
        \<in> set (jarResults (analyzeOne tool win32 jdk count a ij))"
  by (simp add: analyzeOne_def Let_def)

lemma fold_allModules:
  "set (allModules (foldl (analyzeOne tool win32 jdk count) a ijs)) =
     set (allModules a) \<union>
     (\<Union>j\<in>set (map snd ijs). case analyzeJAR tool win32 j jdk of Some ms \<Rightarrow> set ms | None \<Rightarrow> {})"
  by (induction ijs arbitrary: a) (auto simp: analyzeOne_allModules split: option.splits)

lemma fold_distinct:
  "distinct (allModules a) \<Longrightarrow> distinct (allModules (foldl (analyzeOne tool win32 jdk count) a ijs))"
  by (induction ijs arbitrary: a) (auto simp: analyzeOne_distinct)

lemma fold_results:
  "map (\<lambda>x. (jar x, success x)) (jarResults (foldl (analyzeOne tool win32 jdk count) a ijs)) =
     map (\<lambda>x. (jar x, success x)) (jarResults a) @
       map (\<lambda>j. (basename j, analyzeJAR tool win32 j jdk \<noteq> None)) (map snd ijs)"
  by (induction ijs arbitrary: a) (auto simp: analyzeOne_results)

lemma fold_results_mono:
  "set (jarResults a) \<subseteq> set (jarResults (foldl (analyzeOne tool win32 jdk count) a ijs))"
proof (induction ijs arbitrary: a)
  case Nil
  then show ?case by simp
next
  case (Cons ij ijs)
  have "set (jarResults a) \<subseteq> set (jarResults (analyzeOne tool win32 jdk count a ij))"
    by (rule analyzeOne_results_mono)
  also have "\<dots> \<subseteq> set (jarResults (foldl (analyzeOne tool win32 jdk count) (analyzeOne tool win32 jdk count a ij) ijs))"
    by (rule Cons.IH)
  finally show ?case by simp
qed

lemma fold_failed_in:
  "j \<in> set (map snd ijs) \<Longrightarrow> analyzeJAR tool win32 j jdk = None \<Longrightarrow>
     \<lparr>jar = basename j, modules = [], success = False\<rparr>
        \<in> set (jarResults (foldl (analyzeOne tool win32 jdk count) a ijs))"
proof (induction ijs arbitrary: a)
  case Nil
  then show ?case by simp
next
  case (Cons ij ijs)
  show ?case
  proof (cases "j = snd ij")
    case True
    with Cons.prems have "\<lparr>jar = basename j, modules = [], success = False\<rparr>
        \<in> set (jarResults (analyzeOne tool win32 jdk count a ij))"
      using analyzeOne_failed_in by blast
    then show ?thesis using fold_results_mono by fastforce
  next
    case False
    with Cons.prems have "j \<in> set (map snd ijs)" by auto
    with Cons.IH Cons.prems show ?thesis by simp
  qed
qed

lemma fold_none_allModules:
  "\<forall>j\<in>set (map snd ijs). analyzeJAR tool win32 j jdk = None \<Longrightarrow>
    allModules (foldl (analyzeOne tool win32 jdk count) a ijs) = allModules a"
  by (induction ijs arbitrary: a) (auto simp: analyzeOne_def Let_def)

lemma snd_zip_upt: "map snd (zip [0 ..< length xs] xs) = xs"
  by (simp add: map_snd_zip)

lemma sort_distinct_eq:
  fixes xs :: "string list"
  shows "distinct xs \<Longrightarrow> sorted (js_sort xs) \<and> distinct (js_sort xs) \<and> set (js_sort xs) = set xs"
  by (simp add: js_sort_def)

text \<open>
  Claim C1. When a JDK is found and the analysis of at least one artifact succeeds, the
  run of the analyzer returns, and its combined module list has exactly the modules of
  the successful analyses, each once, in sorted order; the text written to the module-list
  file is that list joined by commas. The per-artifact results hold one entry per
  artifact, in order, with the success flag of its analysis; an artifact whose analysis
  failed contributes no module, keeps its entry (marked failed, with no modules), and has
  its line in the printed per-artifact report.
\<close>

theorem combined_modules_union:
  assumes "\<exists>j\<in>set jarFiles. analyzeJAR tool win32 j jdk \<noteq> None"
  shows "\<exists>r. main_analyze tool win32 jarFiles (Some jdk) = Inr r
     \<and> set (finalModules r) =
          (\<Union>j\<in>set jarFiles. case analyzeJAR tool win32 j jdk of Some ms \<Rightarrow> set ms | None \<Rightarrow> {})
     \<and> distinct (finalModules r) \<and> sorted (finalModules r)
     \<and> outputText r = join '','' (finalModules r)
     \<and> map (\<lambda>x. (jar x, success x)) (perJar r) =
          map (\<lambda>j. (basename j, analyzeJAR tool win32 j jdk \<noteq> None)) jarFiles
     \<and> (\<forall>j\<in>set jarFiles. analyzeJAR tool win32 j jdk = None \<longrightarrow>
            \<lparr>jar = basename j, modules = [], success = False\<rparr> \<in> set (perJar r) \<and>
            (''  [x] '' @ basename j @ '': analysis failed'') \<in> set (printed r))"
proof -
  from assms obtain j0 ms0 where j0: "j0 \<in> set jarFiles" "analyzeJAR tool win32 j0 jdk = Some ms0"
    by auto
  then obtain first rest where jf: "jarFiles = first # rest" by (cases jarFiles) auto
  define a0 where "a0 = \<lparr>allModules = [], jarResults = [],
       console = (if length jarFiles > 1 then [''[INFO] Analyzing JARs...''] else [])\<rparr>"
  define a where "a = foldl (analyzeOne tool win32 jdk (length jarFiles)) a0 (zip [0 ..< length jarFiles] jarFiles)"
  define U where "U = (\<Union>j\<in>set jarFiles. case analyzeJAR tool win32 j jdk of Some ms \<Rightarrow> set ms | None \<Rightarrow> {})"
  have sz: "map snd (zip [0 ..< length jarFiles] jarFiles) = jarFiles" by (rule snd_zip_upt)
  have setA: "set (allModules a) = U"
    unfolding a_def U_def fold_allModules sz by (simp add: a0_def)
  have distA: "distinct (allModules a)"
    unfolding a_def by (rule fold_distinct) (simp add: a0_def)
  have resA: "map (\<lambda>x. (jar x, success x)) (jarResults a) =
          map (\<lambda>j. (basename j, analyzeJAR tool win32 j jdk \<noteq> None)) jarFiles"
    unfolding a_def fold_results sz by (simp add: a0_def)
  have ms0: "ms0 \<noteq> []" using j0(2)
    by (auto simp: analyzeJAR_def Let_def split: option.splits if_splits)
  then have "U \<noteq> {}" using j0 unfolding U_def by force
  then have ne: "length (allModules a) > 0" using setA by auto
  obtain r where r: "main_analyze tool win32 jarFiles (Some jdk) = Inr r"
    and fin: "finalModules r = js_sort (allModules a)"
    and otx: "outputText r = join '','' (finalModules r)"
    and res: "perJar r = jarResults a"
    and prt: "length jarFiles > 1 \<longrightarrow> set (map reportLine (jarResults a)) \<subseteq> set (printed r)"
    using ne unfolding main_analyze_def jf
    by (auto simp: Let_def a_def a0_def jf)
  have failed: "\<forall>j\<in>set jarFiles. analyzeJAR tool win32 j jdk = None \<longrightarrow>
            \<lparr>jar = basename j, modules = [], success = False\<rparr> \<in> set (perJar r) \<and>
            (''  [x] '' @ basename j @ '': analysis failed'') \<in> set (printed r)"
  proof (intro ballI impI)
    fix j assume j: "j \<in> set jarFiles" "analyzeJAR tool win32 j jdk = None"
    with j0 have "j \<noteq> j0" by auto
    with j j0 have len: "length jarFiles > 1"
      by (cases jarFiles; cases "tl jarFiles") auto
    have inr: "\<lparr>jar = basename j, modules = [], success = False\<rparr> \<in> set (jarResults a)"
      unfolding a_def using fold_failed_in[of j "zip [0 ..< length jarFiles] jarFiles"] j sz by simp
    then have "reportLine \<lparr>jar = basename j, modules = [], success = False\<rparr> \<in> set (printed r)"
      using prt len by auto
    then show "\<lparr>jar = basename j, modules = [], success = False\<rparr> \<in> set (perJar r) \<and>
            (''  [x] '' @ basename j @ '': analysis failed'') \<in> set (printed r)"
      using inr res by (simp add: reportLine_def)
  qed
  from sort_distinct_eq[OF distA] fin setA
  have "set (finalModules r) = U \<and> distinct (finalModules r) \<and> sorted (finalModules r)" by simp
  with r otx res resA failed show ?thesis unfolding U_def by auto
qed

theorem combined_modules_union_witness:
  "\<exists>r. main_analyze jdeps_example False jars_example (Some [''jdk'']) = Inr r
     \<and> set (finalModules r) = {''java.base'', ''java.xml'', ''java.sql''}
     \<and> distinct (finalModules r) \<and> sorted (finalModules r)
     \<and> outputText r = join '','' (finalModules r)
     \<and> ''  [x] bad.jar: analysis failed'' \<in> set (printed r)"
proof -
  have x: "analyzeJAR jdeps_example False [''jars'', ''X.jar''] [''jdk''] = Some [''java.base'', ''java.xml'']"
    by code_simp
  have y: "analyzeJAR jdeps_example False [''jars'', ''Y.jar''] [''jdk''] = Some [''java.sql'', ''java.base'']"
    by code_simp
  have b: "analyzeJAR jdeps_example False [''jars'', ''bad.jar''] [''jdk''] = None"
    by code_simp
  have h: "\<exists>j\<in>set jars_example. analyzeJAR jdeps_example False j [''jdk''] \<noteq> None"
    using x by (simp add: jars_example_def)
  from combined_modules_union [OF h] obtain r where
    r: "main_analyze jdeps_example False jars_example (Some [''jdk'']) = Inr r"
    and s: "set (finalModules r) =
          (\<Union>j\<in>set jars_example. case analyzeJAR jdeps_example False j [''jdk''] of
              Some ms \<Rightarrow> set ms | None \<Rightarrow> {})"
    and d: "distinct (finalModules r)" "sorted (finalModules r)"
    and t: "outputText r = join '','' (finalModules r)"
    and f: "\<forall>j\<in>set jars_example. analyzeJAR jdeps_example False j [''jdk''] = None \<longrightarrow>
            \<lparr>jar = basename j, modules = [], success = False\<rparr> \<in> set (perJar r) \<and>
            (''  [x] '' @ basename j @ '': analysis failed'') \<in> set (printed r)"
    by blast
  from s x y b have s': "set (finalModules r) = {''java.base'', ''java.xml'', ''java.sql''}"
    by (auto simp: jars_example_def)
  from f b have "''  [x] bad.jar: analysis failed'' \<in> set (printed r)"
    by (simp add: jars_example_def basename_def)
  with r s' d t show ?thesis by blast
qed

text \<open>The scenario of the specification, evaluated: \<open>X.jar\<close> needs \<open>base\<close> and
  \<open>xml\<close>, \<open>Y.jar\<close> needs \<open>sql\<close> and \<open>base\<close>, one artifact fails.\<close>

lemma scenario_two_jars:
  "map_sum id (\<lambda>r. (outputFile r, outputText r)) (main_analyze jdeps_example False jars_example (Some [''jdk'']))
     = Inr (''combined-modules.txt'', ''java.base,java.sql,java.xml'')"
  by code_simp

text \<open>
  Claim C3. When no JDK with the analysis tool is found, or the analysis of every
  artifact fails, the module list of the run is the built-in default list, in the order
  in which the script defines it, and the text written to the module-list file is that
  list joined by commas.
\<close>

theorem default_modules_fallback:
  assumes "jarFiles \<noteq> []"
    and "jdkPath = None \<or>
         (\<exists>jdk. jdkPath = Some jdk \<and> (\<forall>j\<in>set jarFiles. analyzeJAR tool win32 j jdk = None))"
  shows "\<exists>r. main_analyze tool win32 jarFiles jdkPath = Inr r
     \<and> finalModules r = DEFAULT_MODULES
     \<and> finalModules r = [''java.base'', ''java.desktop'', ''java.xml'', ''java.logging'',
                         ''java.naming'', ''java.sql'', ''java.management'', ''jdk.unsupported'']
     \<and> outputText r =
         ''java.base,java.desktop,java.xml,java.logging,java.naming,java.sql,java.management,jdk.unsupported''
     \<and> moduleSource r = ''default''"
proof -
  from assms(1) obtain first rest where jf: "jarFiles = first # rest" by (cases jarFiles) auto
  have jn: "join '','' DEFAULT_MODULES =
     ''java.base,java.desktop,java.xml,java.logging,java.naming,java.sql,java.management,jdk.unsupported''"
    by (simp add: DEFAULT_MODULES_def)
  from assms(2) show ?thesis
  proof
    assume "jdkPath = None"
    then show ?thesis using jn unfolding main_analyze_def jf
      by (simp add: Let_def) (simp add: DEFAULT_MODULES_def)
  next
    assume "\<exists>jdk. jdkPath = Some jdk \<and> (\<forall>j\<in>set jarFiles. analyzeJAR tool win32 j jdk = None)"
    then obtain jdk where jdk: "jdkPath = Some jdk"
      and none: "\<forall>j\<in>set jarFiles. analyzeJAR tool win32 j jdk = None" by auto
    define a0 where "a0 = \<lparr>allModules = [], jarResults = [],
       console = (if length jarFiles > 1 then [''[INFO] Analyzing JARs...''] else [])\<rparr>"
    have "allModules (foldl (analyzeOne tool win32 jdk (length jarFiles)) a0
              (zip [0 ..< length jarFiles] jarFiles)) = allModules a0"
      by (rule fold_none_allModules) (use none snd_zip_upt in auto)
    then have "allModules (foldl (analyzeOne tool win32 jdk (length jarFiles)) a0
              (zip [0 ..< length jarFiles] jarFiles)) = []" by (simp add: a0_def)
    then show ?thesis using jn jdk unfolding main_analyze_def
      by (simp add: Let_def a0_def jf) (simp add: DEFAULT_MODULES_def)
  qed
qed

theorem default_modules_fallback_witness:
  "\<exists>r. main_analyze jdeps_example False [[''app.jar'']] None = Inr r
     \<and> finalModules r = DEFAULT_MODULES
     \<and> outputText r =
         ''java.base,java.desktop,java.xml,java.logging,java.naming,java.sql,java.management,jdk.unsupported''"
proof -
  have h: "[[''app.jar'']] \<noteq> ([] :: path list)" by simp
  from default_modules_fallback [OF h, of None jdeps_example False] show ?thesis by blast
qed

section \<open>Properties of the module-list resolution\<close>

lemma env_always_throws:
  "envMODULES = Some (c # cs) \<Longrightarrow> resolveModules envMODULES fs = Inl ReferenceError"
  by (simp add: resolveModules_def Let_def log_source_def)

lemma useModuleFile_logged: "logged (useModuleFile fs file tag s) = logged s"
  by (simp add: useModuleFile_def Let_def log_source_def split: sum.splits)

lemma never_logged: "resolveModules envMODULES fs = Inr s \<Longrightarrow> logged s = []"
  by (auto simp: resolveModules_def Let_def log_source_def useModuleFile_logged
           split: option.splits list.splits if_splits)

text \<open>
  Claim C2. The claim asks that the environment variable \<open>MODULES\<close> wins when set and
  that the script logs the selected source before it builds. Evaluated in a working
  directory that holds a manual file and two analysis outputs: with \<open>MODULES\<close> set, the
  script ends with a ReferenceError at the message of the selected source, so nothing is
  built from the override; with \<open>MODULES\<close> unset, the manual file is selected, and no
  message naming it is printed.
\<close>

theorem module_source_not_logged:
  "resolveModules (Some ''java.base,java.xml'') fs_module_files = Inl ReferenceError
   \<and> resolveModules None fs_module_files =
       Inr \<lparr>MODULES = ''java.base,java.sql'', modulesSource = ''custom-modules.txt'', logged = []\<rparr>"
  by code_simp

text \<open>Without the manual file the analysis output modified last is selected, and in an
  empty directory the default list.\<close>

lemma module_source_auto_and_default:
  "map_sum id MODULES (resolveModules None (unlinkSync fs_module_files [''custom-modules.txt'']))
     = Inr ''java.base''
   \<and> map_sum id MODULES (resolveModules None []) = Inr BUILD_DEFAULT_MODULES"
  by code_simp

section \<open>Properties of the link step\<close>

lemmas log_defs = log_header_def log_info_def log_success_def log_error_def log_step_def

lemma spawns_emit_Log [simp]: "spawns (emit (Log l) st) = spawns st"
  by (simp add: spawns_def emit_def)

lemma spawns_emit_Spawn [simp]: "spawns (emit (Spawn c a) st) = spawns st @ [Spawn c a]"
  by (simp add: spawns_def emit_def)

lemma spawns_files_update [simp]: "spawns (st\<lparr>files := f\<rparr>) = spawns st"
  by (simp add: spawns_def)

lemma files_emit [simp]: "files (emit e st) = files st"
  by (simp add: emit_def)

lemma rmSync_removes: "\<not> existsSync (rmSync fs p) p"
proof -
  have "p \<notin> fst ` set (rmSync fs p)" by (auto simp: rmSync_def)
  then show ?thesis by (simp add: existsSync_def map_of_eq_None_iff)
qed

lemma removeExisting_files: "files (removeExisting p st) = cleared (files st) p"
  by (simp add: removeExisting_def log_defs cleared_def)

lemma cleared_absent: "\<not> existsSync (cleared fs p) p"
  using rmSync_removes by (simp add: cleared_def)

lemma removeExisting_spawns: "spawns (removeExisting p st) = spawns st"
  by (simp add: removeExisting_def log_defs)

lemma afterJlink_files: "files (snd (afterJlink platform p result st)) = files st"
  by (simp add: afterJlink_def log_defs)

lemma afterJlink_spawns: "spawns (snd (afterJlink platform p result st)) = spawns st"
  by (simp add: afterJlink_def log_defs)

lemma afterJlink_ok:
  "error result = None \<Longrightarrow> status result = Some 0 \<Longrightarrow>
     fst (afterJlink platform p result st) = existsSync (files st) p"
  by (simp add: afterJlink_def)

lemma buildJre_found:
  assumes "getJlinkPath (files st) jdkPath = Some cmd"
  shows "buildJre jlink mods platform jdkPath outputName st =
     (case spawnSync jlink cmd (jlinkArgs mods (OUTPUT_DIR @ [outputName]))
             (log_info ''Running jlink...''
                (removeExisting (OUTPUT_DIR @ [outputName])
                   (log_info (''Building JRE for '' @ platform @ ''...'') st))) of
        (result, st4) \<Rightarrow> afterJlink platform (OUTPUT_DIR @ [outputName]) result st4)"
  using assms by (simp add: buildJre_def Let_def log_defs)

lemma buildJre_spawns:
  assumes "getJlinkPath (files st) jdkPath = Some cmd"
  shows "spawns (snd (buildJre jlink mods platform jdkPath outputName st)) =
           spawns st @ [Spawn cmd (jlinkArgs mods (OUTPUT_DIR @ [outputName]))]"
  unfolding buildJre_found[OF assms]
  by (simp add: spawnSync_def split_def afterJlink_spawns removeExisting_spawns log_defs)

lemma buildJre_files:
  assumes "getJlinkPath (files st) jdkPath = Some cmd"
  shows "files (snd (buildJre jlink mods platform jdkPath outputName st)) =
           snd (jlink cmd (jlinkArgs mods (OUTPUT_DIR @ [outputName]))
                  (cleared (files st) (OUTPUT_DIR @ [outputName])))"
  unfolding buildJre_found[OF assms]
  by (simp add: spawnSync_def split_def afterJlink_files removeExisting_files log_defs)

lemma buildJre_fst:
  assumes "getJlinkPath (files st) jdkPath = Some cmd"
    and "error (fst (jlink cmd (jlinkArgs mods (OUTPUT_DIR @ [outputName]))
                  (cleared (files st) (OUTPUT_DIR @ [outputName])))) = None"
    and "status (fst (jlink cmd (jlinkArgs mods (OUTPUT_DIR @ [outputName]))
                  (cleared (files st) (OUTPUT_DIR @ [outputName])))) = Some 0"
  shows "fst (buildJre jlink mods platform jdkPath outputName st) =
           existsSync (snd (jlink cmd (jlinkArgs mods (OUTPUT_DIR @ [outputName]))
                  (cleared (files st) (OUTPUT_DIR @ [outputName])))) (OUTPUT_DIR @ [outputName])"
  unfolding buildJre_found[OF assms(1)] using assms(2,3)
  by (simp add: spawnSync_def split_def afterJlink_ok removeExisting_files log_defs)

lemma existsSync_append: "existsSync (fs @ fs') p = (existsSync fs p \<or> existsSync fs' p)"
  by (auto simp: existsSync_def map_add_def split: option.splits)

lemma cleared_cached: "cleared (files st_cached) (OUTPUT_DIR @ [''jre-win-x64'']) =
   [([''jdk-downloads''], Dir 0),
         ([''jdk-downloads'', ''jdk-21-windows-x64''], Dir 0),
         ([''jdk-downloads'', ''jdk-21-windows-x64'', ''bin''], Dir 0),
         ([''jdk-downloads'', ''jdk-21-windows-x64'', ''bin'', ''jlink.exe''], File 0 2048 []),
         ([''jre-builds''], Dir 0)]"
  by (simp add: cleared_def st_cached_def OUTPUT_DIR_def existsSync_def rmSync_def)


lemma jlink_cached: "getJlinkPath (files st_cached) jdk_win = Some (jdk_win @ [''bin'', ''jlink.exe''])"
  by (simp add: getJlinkPath_def jlinkCandidates_def st_cached_def jdk_win_def existsSync_def)

lemma jlink_complete_files:
  "snd (jlink_complete c a fs) = fs @ [([''jre-builds'', ''jre-win-x64''], Dir 0),
            ([''jre-builds'', ''jre-win-x64'', ''bin''], Dir 0),
            ([''jre-builds'', ''jre-win-x64'', ''bin'', ''java.exe''], File 0 4096 [])]"
  by (simp add: jlink_complete_def)

lemma relinked_files:
  "files (snd (buildJre jlink_complete BUILD_DEFAULT_MODULES ''Windows x64'' jdk_win ''jre-win-x64'' st_cached))
    = files st_cached"
  by (simp add: buildJre_files[OF jlink_cached] jlink_complete_files cleared_cached)
     (simp add: st_cached_def)

text \<open>
  Claim C4, as the code has it. The link step keeps no cache of runtime images: whenever
  \<open>jlink\<close> is located in the JDK, an invocation first removes whatever is at the
  destination, then runs \<open>jlink\<close> once, on a file system where the destination is
  absent, and leaves the file system that the tool leaves. So a second invocation, with a
  complete image at the destination, runs the tool again.
\<close>

theorem buildJre_always_runs_jlink:
  assumes "getJlinkPath (files st) jdkPath = Some cmd"
    and "outputPath = OUTPUT_DIR @ [outputName]"
    and "st' = snd (buildJre jlink mods platform jdkPath outputName st)"
  shows "\<not> existsSync (cleared (files st) outputPath) outputPath
       \<and> spawns st' = spawns st @ [Spawn cmd (jlinkArgs mods outputPath)]
       \<and> files st' = snd (jlink cmd (jlinkArgs mods outputPath) (cleared (files st) outputPath))"
  unfolding assms(2,3)
  using cleared_absent buildJre_spawns[OF assms(1)] buildJre_files[OF assms(1)]
  by simp

theorem buildJre_always_runs_jlink_witness:
  "spawns (snd (buildJre jlink_complete BUILD_DEFAULT_MODULES ''Windows x64'' jdk_win ''jre-win-x64'' st_cached))
     = [Spawn (jdk_win @ [''bin'', ''jlink.exe''])
              (jlinkArgs BUILD_DEFAULT_MODULES (OUTPUT_DIR @ [''jre-win-x64'']))]"
proof -
  have e: "spawns st_cached = []" by (simp add: st_cached_def spawns_def)
  from buildJre_always_runs_jlink [OF jlink_cached refl refl,
      where jlink = jlink_complete and mods = BUILD_DEFAULT_MODULES
        and platform = "''Windows x64''" and outputName = "''jre-win-x64''"] e
  show ?thesis by simp
qed

text \<open>
  The claim fails on the code: started on a complete cached image, the link step runs the
  tool; started again on the complete image that this run left, it runs the tool again.
\<close>

theorem cached_image_is_relinked:
  "existsSync (files st_cached) (OUTPUT_DIR @ [''jre-win-x64'', ''bin'', ''java.exe''])
   \<and> length (spawns st_cached) = 0
   \<and> fst (buildJre jlink_complete BUILD_DEFAULT_MODULES ''Windows x64'' jdk_win ''jre-win-x64'' st_cached)
   \<and> existsSync
        (files (snd (buildJre jlink_complete BUILD_DEFAULT_MODULES ''Windows x64'' jdk_win
                       ''jre-win-x64'' st_cached)))
        (OUTPUT_DIR @ [''jre-win-x64'', ''bin'', ''java.exe''])
   \<and> length (spawns (snd (buildJre jlink_complete BUILD_DEFAULT_MODULES ''Windows x64'' jdk_win
                       ''jre-win-x64'' st_cached))) = 1
   \<and> length (spawns (snd (buildJre jlink_complete BUILD_DEFAULT_MODULES ''Windows x64'' jdk_win
                       ''jre-win-x64''
                       (snd (buildJre jlink_complete BUILD_DEFAULT_MODULES ''Windows x64'' jdk_win
                               ''jre-win-x64'' st_cached))))) = 2"
proof -
  let ?s1 = "snd (buildJre jlink_complete BUILD_DEFAULT_MODULES ''Windows x64'' jdk_win
                       ''jre-win-x64'' st_cached)"
  have e0: "existsSync (files st_cached) (OUTPUT_DIR @ [''jre-win-x64'', ''bin'', ''java.exe''])"
    by (simp add: st_cached_def OUTPUT_DIR_def existsSync_def)
  have s0: "spawns st_cached = []" by (simp add: st_cached_def spawns_def)
  have g1: "getJlinkPath (files ?s1) jdk_win = Some (jdk_win @ [''bin'', ''jlink.exe''])"
    using jlink_cached by (simp add: relinked_files)
  have b1: "fst (buildJre jlink_complete BUILD_DEFAULT_MODULES ''Windows x64'' jdk_win ''jre-win-x64'' st_cached)"
    by (subst buildJre_fst[OF jlink_cached])
       (simp_all add: jlink_complete_def existsSync_append existsSync_def OUTPUT_DIR_def)
  have n1: "length (spawns ?s1) = 1"
    by (simp add: buildJre_spawns[OF jlink_cached] s0)
  have n2: "length (spawns (snd (buildJre jlink_complete BUILD_DEFAULT_MODULES ''Windows x64'' jdk_win
                       ''jre-win-x64'' ?s1))) = 2"
    by (simp add: buildJre_spawns[OF g1] n1)
  from e0 s0 b1 n1 n2 show ?thesis by (simp add: relinked_files)
qed

text \<open>
  Claim C5, as the code has it. When \<open>jlink\<close> was located and its run ends with no
  error and exit status 0, the link step reports the build of the platform as successful
  exactly when the output directory exists afterwards; the entry-point binary inside the
  image is not looked at.
\<close>

theorem buildJre_checks_output_directory:
  assumes "getJlinkPath (files st) jdkPath = Some cmd"
    and "outputPath = OUTPUT_DIR @ [outputName]"
    and "error (fst (jlink cmd (jlinkArgs mods outputPath) (cleared (files st) outputPath))) = None"
    and "status (fst (jlink cmd (jlinkArgs mods outputPath) (cleared (files st) outputPath))) = Some 0"
  shows "fst (buildJre jlink mods platform jdkPath outputName st) =
           existsSync (files (snd (buildJre jlink mods platform jdkPath outputName st))) outputPath"
  using buildJre_fst[OF assms(1), of jlink mods outputName platform] assms(3,4)
  unfolding assms(2) buildJre_files[OF assms(1)]
  by simp

theorem buildJre_checks_output_directory_witness:
  "fst (buildJre jlink_hollow BUILD_DEFAULT_MODULES ''Windows x64'' jdk_win ''jre-win-x64'' st_cached)"
proof -
  have e: "error (fst (jlink_hollow c a f)) = None" for c a f
    by (simp add: jlink_hollow_def)
  have s: "status (fst (jlink_hollow c a f)) = Some 0" for c a f
    by (simp add: jlink_hollow_def)
  have x: "existsSync (files (snd (buildJre jlink_hollow BUILD_DEFAULT_MODULES ''Windows x64''
                jdk_win ''jre-win-x64'' st_cached))) (OUTPUT_DIR @ [''jre-win-x64''])"
    by (simp add: buildJre_files[OF jlink_cached] jlink_hollow_def existsSync_append)
       (simp add: existsSync_def OUTPUT_DIR_def)
  from buildJre_checks_output_directory [OF jlink_cached refl e s,
      where platform = "''Windows x64''" and outputName = "''jre-win-x64''"
        and mods = BUILD_DEFAULT_MODULES] x
  show ?thesis by simp
qed

text \<open>
  The claim fails on the code: a linker that exits with status 0 and leaves an output
  directory with no \<open>bin/java\<close> and no \<open>bin/java.exe\<close> in it has its platform
  reported as built.
\<close>

theorem hollow_image_reported_built:
  "status (fst (jlink_hollow (jdk_win @ [''bin'', ''jlink.exe''])
                  (jlinkArgs BUILD_DEFAULT_MODULES (OUTPUT_DIR @ [''jre-win-x64''])) [])) = Some 0
   \<and> fst (buildJre jlink_hollow BUILD_DEFAULT_MODULES ''Windows x64'' jdk_win ''jre-win-x64'' st_cached)
   \<and> \<not> existsSync
          (files (snd (buildJre jlink_hollow BUILD_DEFAULT_MODULES ''Windows x64'' jdk_win
                         ''jre-win-x64'' st_cached)))
          (OUTPUT_DIR @ [''jre-win-x64'', ''bin'', ''java.exe''])
   \<and> \<not> existsSync
          (files (snd (buildJre jlink_hollow BUILD_DEFAULT_MODULES ''Windows x64'' jdk_win
                         ''jre-win-x64'' st_cached)))
          (OUTPUT_DIR @ [''jre-win-x64'', ''bin'', ''java''])"
proof -
  have f: "files (snd (buildJre jlink_hollow BUILD_DEFAULT_MODULES ''Windows x64'' jdk_win
                         ''jre-win-x64'' st_cached)) =
       [([''jdk-downloads''], Dir 0),
        ([''jdk-downloads'', ''jdk-21-windows-x64''], Dir 0),
        ([''jdk-downloads'', ''jdk-21-windows-x64'', ''bin''], Dir 0),
        ([''jdk-downloads'', ''jdk-21-windows-x64'', ''bin'', ''jlink.exe''], File 0 2048 []),
        ([''jre-builds''], Dir 0),
        ([''jre-builds'', ''jre-win-x64''], Dir 0)]"
    by (simp add: buildJre_files[OF jlink_cached] jlink_hollow_def cleared_cached)
  have b: "fst (buildJre jlink_hollow BUILD_DEFAULT_MODULES ''Windows x64'' jdk_win ''jre-win-x64'' st_cached)"
    by (subst buildJre_fst[OF jlink_cached])
       (simp_all add: jlink_hollow_def existsSync_append existsSync_def OUTPUT_DIR_def)
  have s: "status (fst (jlink_hollow (jdk_win @ [''bin'', ''jlink.exe''])
                  (jlinkArgs BUILD_DEFAULT_MODULES (OUTPUT_DIR @ [''jre-win-x64''])) [])) = Some 0"
    by (simp add: jlink_hollow_def)
  show ?thesis unfolding f using b s by (simp add: existsSync_def OUTPUT_DIR_def)
qed

section \<open>Properties of the downloader\<close>

lemma files_withFiles [simp]: "files (withFiles f st) = f (files st)"
  by (simp add: withFiles_def)

lemma events_withFiles [simp]: "events (withFiles f st) = events st"
  by (simp add: withFiles_def)

lemma events_unlinkIfExists [simp]: "events (unlinkIfExists p st) = events st"
  by (simp add: unlinkIfExists_def)

lemma events_emit_append [simp]: "events (emit e st) = events st @ [e]"
  by (simp add: emit_def)

lemma unlinkSync_removes: "\<not> existsSync (unlinkSync fs p) p"
proof -
  have "p \<notin> fst ` set (unlinkSync fs p)" by (auto simp: unlinkSync_def)
  then show ?thesis by (simp add: existsSync_def map_of_eq_None_iff)
qed

lemma unlinkIfExists_removes: "\<not> existsSync (files (unlinkIfExists p st)) p"
  using unlinkSync_removes by (simp add: unlinkIfExists_def)

lemma downloadEvent_simps [simp]:
  "downloadEvent (HttpGet u)"
  "downloadEvent (Log ''  [v] Downloaded'')"
  by (simp_all add: downloadEvent_def)

text \<open>Two facts about every download that ends: the three kinds of error that have a
  handler leave no file, and the download adds nothing to the trace but its requests and
  the line of the \<open>finish\<close> listener.\<close>

lemma downloadFile_invariant:
  assumes a: "downloadFile net u dest st = Some y"
  shows "cleanFailure dest y \<and> (\<exists>xs. events (snd y) = events st @ xs \<and> list_all downloadEvent xs)"
proof (rule downloadFile.raw_induct[where P = "\<lambda>net u dest st y. cleanFailure dest y \<and> (\<exists>xs. events (snd y) = events st @ xs \<and> list_all downloadEvent xs)", OF _ a])
  fix f :: "network \<Rightarrow> string \<Rightarrow> path \<Rightarrow> state \<Rightarrow> (promise \<times> state) option"
  fix net u dest st y
  assume IH: "\<And>net u dest st y. f net u dest st = Some y \<Longrightarrow> cleanFailure dest y \<and> (\<exists>xs. events (snd y) = events st @ xs \<and> list_all downloadEvent xs)"
  assume body: "((case net (requests st) u of
        GetThrows \<Rightarrow>
          Some (Rejected ERR_INVALID_URL, withFiles (\<lambda>fs. writeFile fs dest 0) st)
      | OpenError \<Rightarrow>
          Some (Rejected StreamFailed, unlinkIfExists dest (emit (HttpGet u) st))
      | RequestError \<Rightarrow>
          Some (Rejected RequestFailed,
                unlinkIfExists dest (withFiles (\<lambda>fs. writeFile fs dest 0) (emit (HttpGet u) st)))
      | Response statusCode location body \<Rightarrow>
          (let st1 = withFiles (\<lambda>fs. writeFile fs dest 0) (emit (HttpGet u) st) in
           if statusCode = 301 \<or> statusCode = 302 \<or> statusCode = 307 then
             (case location of
                None \<Rightarrow> Some (Rejected TypeError, withFiles (\<lambda>fs. unlinkSync fs dest) st1)
              | Some l \<Rightarrow> f net l dest (withFiles (\<lambda>fs. unlinkSync fs dest) st1))
           else if statusCode \<noteq> 200 then
             Some (Rejected (HttpError statusCode), withFiles (\<lambda>fs. unlinkSync fs dest) st1)
           else
             (case body of
                Finished n \<Rightarrow>
                  Some (Resolved,
                        emit (Log ''  [v] Downloaded'') (withFiles (\<lambda>fs. writeFile fs dest n) st1))
              | FileError n \<Rightarrow>
                  Some (Rejected StreamFailed,
                        unlinkIfExists dest (withFiles (\<lambda>fs. writeFile fs dest n) st1))
              | RequestErrorAfter n \<Rightarrow>
                  Some (Rejected RequestFailed,
                        emit (Log ''  [v] Downloaded'')
                          (unlinkIfExists dest (withFiles (\<lambda>fs. writeFile fs dest n) st1)))
              | CutShort n \<Rightarrow>
                  Some (Pending, withFiles (\<lambda>fs. writeFile fs dest n) st1))))) = Some y"
  show "cleanFailure dest y \<and> (\<exists>xs. events (snd y) = events st @ xs \<and> list_all downloadEvent xs)"
  proof (cases "net (requests st) u")
    case GetThrows
    with body show ?thesis by (auto simp: cleanFailure_def)
  next
    case OpenError
    with body show ?thesis using unlinkIfExists_removes by (auto simp: cleanFailure_def)
  next
    case RequestError
    with body show ?thesis using unlinkIfExists_removes by (auto simp: cleanFailure_def)
  next
    case (Response statusCode location body')
    show ?thesis
    proof (cases "statusCode = 301 \<or> statusCode = 302 \<or> statusCode = 307")
      case True
      show ?thesis
      proof (cases location)
        case None
        with body Response True show ?thesis by (auto simp: Let_def cleanFailure_def)
      next
        case (Some l)
        with body Response True
        have "f net l dest
                (withFiles (\<lambda>fs. unlinkSync fs dest)
                   (withFiles (\<lambda>fs. writeFile fs dest 0) (emit (HttpGet u) st))) = Some y"
          by (auto simp: Let_def)
        from IH[OF this] obtain xs where c: "cleanFailure dest y"
          and e: "events (snd y) = (events st @ [HttpGet u]) @ xs" and l: "list_all downloadEvent xs"
          by auto
        from e l have "events (snd y) = events st @ (HttpGet u # xs) \<and> list_all downloadEvent (HttpGet u # xs)"
          by simp
        with c show ?thesis by blast
      qed
    next
      case False
      show ?thesis
      proof (cases "statusCode = 200")
        case notok: False
        with body Response False show ?thesis
          using unlinkSync_removes by (auto simp: Let_def cleanFailure_def)
      next
        case True
        with body Response False show ?thesis
          using unlinkIfExists_removes by (cases body') (auto simp: Let_def cleanFailure_def)
      qed
    qed
  qed
qed


text \<open>
  Whenever a download ends in an error of one of the three kinds that have a handler (a
  request error, an error of the write stream, or a final HTTP status that is neither 200
  nor one of the redirects 301, 302, 307, possibly after redirects were followed), the
  destination file does not exist in the file system that the rejected promise leaves.
\<close>

lemma handled_errors_leave_no_file:
  assumes "downloadFile net u dest st = Some (Rejected e, st')"
    and "e = RequestFailed \<or> e = StreamFailed \<or> (\<exists>code. e = HttpError code)"
  shows "\<not> existsSync (files st') dest"
  using downloadFile_invariant[OF assms(1)] assms(2) unfolding cleanFailure_def by blast

lemma redirect_then_stream_error:
  "\<exists>st'. downloadFile net_redirect_fail ''https://example.org/jdk.zip'' [''jdk-downloads'', ''jdk.zip'']
            st_empty = Some (Rejected StreamFailed, st')
        \<and> requests st' = [''https://example.org/jdk.zip'', ''https://mirror.example/jdk.zip'']
        \<and> \<not> existsSync (files st') [''jdk-downloads'', ''jdk.zip'']"
proof -
  have "\<exists>st'. downloadFile net_redirect_fail ''https://example.org/jdk.zip'' [''jdk-downloads'', ''jdk.zip'']
            st_empty = Some (Rejected StreamFailed, st')
        \<and> requests st' = [''https://example.org/jdk.zip'', ''https://mirror.example/jdk.zip'']"
    apply (subst downloadFile.simps)
    apply (simp add: net_redirect_fail_def st_empty_def requests_def emit_def Let_def)
    apply (subst downloadFile.simps)
    apply (simp add: net_redirect_fail_def requests_def emit_def Let_def withFiles_def unlinkIfExists_def)
    done
  then obtain st' where
    d: "downloadFile net_redirect_fail ''https://example.org/jdk.zip'' [''jdk-downloads'', ''jdk.zip'']
            st_empty = Some (Rejected StreamFailed, st')"
    and r: "requests st' = [''https://example.org/jdk.zip'', ''https://mirror.example/jdk.zip'']"
    by blast
  from handled_errors_leave_no_file [OF d] have "\<not> existsSync (files st') [''jdk-downloads'', ''jdk.zip'']"
    by blast
  with d r show ?thesis by blast
qed

lemma invalid_url_leaves_empty_file:
  assumes "net (requests st) u = GetThrows"
  shows "\<exists>st'. downloadFile net u dest st = Some (Rejected ERR_INVALID_URL, st')
             \<and> existsSync (files st') dest"
proof -
  have "existsSync (writeFile fs dest 0) dest" for fs
    by (simp add: writeFile_def existsSync_append) (simp add: existsSync_def)
  with assms show ?thesis by (subst downloadFile.simps) simp
qed

lemma requests_emit_HttpGet [simp]: "requests (emit (HttpGet u) st) = requests st @ [u]"
  by (simp add: requests_def emit_def)

lemma requests_emit_Log [simp]: "requests (emit (Log l) st) = requests st"
  by (simp add: requests_def emit_def)

lemma requests_withFiles [simp]: "requests (withFiles f st) = requests st"
  by (simp add: requests_def)

lemma requests_files_update [simp]: "requests (st\<lparr>files := f\<rparr>) = requests st"
  by (simp add: requests_def)

lemma writeFile_exists: "existsSync (writeFile fs dest n) dest"
  by (simp add: writeFile_def existsSync_append) (simp add: existsSync_def)

lemma writeFile_size: "statSize (writeFile fs dest n) dest = n"
proof -
  have "map_of (unlinkSync fs dest) dest = None"
    using unlinkSync_removes[of fs dest] by (simp add: existsSync_def)
  then show ?thesis by (simp add: writeFile_def statSize_def map_add_def)
qed

text \<open>
  Claim C7. The claim asks that no file remains at the destination after a download
  that ended in an error. The handlers of the request and of the write stream remove the
  file, and so do the branches of the HTTP status; but \<open>protocol.get\<close> is called after
  \<open>fs.createWriteStream(dest)\<close> and outside every handler. When a server answers with a
  redirect to a relative address, the call that follows the redirect creates the
  destination anew, \<open>protocol.get\<close> throws on the address, the promise is rejected, and the
  empty destination file stays: for every destination and every state in which the
  download starts.
\<close>

theorem relative_redirect_leaves_file:
  "\<exists>st'. downloadFile net_relative_redirect ''https://example.org/jdk.zip'' dest st
            = Some (Rejected ERR_INVALID_URL, st')
        \<and> requests st' = requests st @ [''https://example.org/jdk.zip'']
        \<and> existsSync (files st') dest
        \<and> statSize (files st') dest = 0"
  apply (subst downloadFile.simps)
  apply (simp add: net_relative_redirect_def startsWith_def Let_def)
  apply (subst downloadFile.simps)
  apply (simp add: net_relative_redirect_def startsWith_def writeFile_exists writeFile_size)
  done


subsection \<open>The fetch step\<close>

lemma map_of_rmSync_other: "\<not> prefix p q \<Longrightarrow> map_of (rmSync fs p) q = map_of fs q"
  by (induction fs) (auto simp: rmSync_def)

lemma verifyExisting_requests:
  "requests (snd (verifyExisting platform config finalDir st)) = requests st"
  by (simp add: verifyExisting_def split: sum.splits)

lemma extractAndMove_requests:
  "requests (snd (extractAndMove extract platform config archivePath extractDir finalDir st)) = requests st"
  by (simp add: extractAndMove_def Let_def split: sum.splits prod.splits option.splits)

lemma extractPlatform_requests:
  "requests (extractPlatform extract platform config archivePath extractDir finalDir st) = requests st"
proof -
  obtain r st3 where e: "extractAndMove extract platform config archivePath extractDir finalDir
     (withFiles (\<lambda>fs. mkdirs fs extractDir (length extractDir))
        (if existsSync (files st) extractDir
                 then withFiles (\<lambda>fs. rmSync fs extractDir) st else st)) = (r, st3)"
    by (cases "extractAndMove extract platform config archivePath extractDir finalDir
     (withFiles (\<lambda>fs. mkdirs fs extractDir (length extractDir))
        (if existsSync (files st) extractDir
                 then withFiles (\<lambda>fs. rmSync fs extractDir) st else st))") auto
  have "requests st3 = requests st"
    using extractAndMove_requests[of "extract" platform config archivePath extractDir finalDir
      "withFiles (\<lambda>fs. mkdirs fs extractDir (length extractDir))
        (if existsSync (files st) extractDir
                 then withFiles (\<lambda>fs. rmSync fs extractDir) st else st)"] e
    by simp
  then show ?thesis
    using e by (cases r) (simp_all add: extractPlatform_def Let_def)
qed

lemma fetchArchive_present:
  "\<not> needsDownload (files st) archivePath \<Longrightarrow>
     fetchArchive net config archivePath st =
       Some (Fetched, emit (Log ''  [INFO] Archive already downloaded'') st)"
  by (simp add: fetchArchive_def)


lemma present_is_file:
  assumes "existsSync fs p" and "statSize fs p \<ge> 1024 * 1024"
  shows "\<exists>t n c. map_of fs p = Some (File t n c) \<and> n \<ge> 1024 * 1024"
  using assms by (auto simp: existsSync_def statSize_def split: option.splits node.splits)

lemma file_not_needsDownload:
  "map_of fs p = Some (File t n c) \<Longrightarrow> n \<ge> 1024 * 1024 \<Longrightarrow> \<not> needsDownload fs p"
  by (simp add: needsDownload_def existsSync_def statSize_def)

lemma config_jdkPath_file:
  "map_of fs d = Some (File t n c) \<Longrightarrow> config_jdkPath l fs d = Inl ENOTDIR"
  by (simp add: config_jdkPath_def readdirSync_def)

lemma prefix_same_length: "prefix p q \<Longrightarrow> length p = length q \<Longrightarrow> p = q"
  by (auto simp: prefix_def)

lemma verifyExisting_keeps_file:
  assumes v: "verifyExisting platform config finalDir st = (Inr False, st1)"
    and q: "map_of (files st) q = Some (File t n c)"
    and len: "length q = length finalDir"
  shows "map_of (files st1) q = Some (File t n c)"
proof (cases "existsSync (files st) finalDir")
  case False
  with v have "st1 = st" by (simp add: verifyExisting_def)
  with q show ?thesis by simp
next
  case True
  show ?thesis
  proof (cases "finalDir = q")
    case True
    with q have "config_jdkPath (layout config) (files st) finalDir = Inl ENOTDIR"
      by (simp add: config_jdkPath_file)
    with v \<open>existsSync (files st) finalDir\<close> show ?thesis by (simp add: verifyExisting_def)
  next
    case False
    with len have np: "\<not> prefix finalDir q" using prefix_same_length by fastforce
    from v True have "files st1 = files st \<or> files st1 = rmSync (files st) finalDir"
      by (auto simp: verifyExisting_def split: sum.splits if_splits)
    with q np show ?thesis by (auto simp: map_of_rmSync_other)
  qed
qed

lemma step_unfold:
  assumes "verifyExisting platform config (DOWNLOAD_DIR @ [''jdk-'' @ v @ ''-'' @ platform])
             (emit (platformLine names platform) st) = (res, st1)"
  shows "downloadAndExtractPlatform net extract v names platform config st =
     (case res of
        Inl e \<Rightarrow> Some (Rejected e, st1)
      | Inr True \<Rightarrow> Some (Resolved, st1)
      | Inr False \<Rightarrow>
          (case fetchArchive net config (DOWNLOAD_DIR @ [archiveName config]) st1 of
             None \<Rightarrow> None
           | Some (FetchFailed, st2) \<Rightarrow> Some (Resolved, st2)
           | Some (FetchPending, st2) \<Rightarrow> Some (Pending, st2)
           | Some (Fetched, st2) \<Rightarrow>
               Some (Resolved, extractPlatform extract platform config
                       (DOWNLOAD_DIR @ [archiveName config])
                       (DOWNLOAD_DIR @ [''jdk-'' @ v @ ''-'' @ platform @ ''-temp''])
                       (DOWNLOAD_DIR @ [''jdk-'' @ v @ ''-'' @ platform]) st2)))"
  unfolding downloadAndExtractPlatform_def Let_def assms
  by (cases res) (simp_all split: bool.splits)

text \<open>
  Claim C6. For every platform target and every network: when the archive of the platform
  exists in the downloads directory with a size of at least 1 MiB, the step for that
  platform returns and sends no request at all (the list of requested URLs is what it was
  before), whatever else the step does with the installed or extracted directories.
\<close>

theorem archive_present_no_requests:
  assumes "existsSync (files st) (DOWNLOAD_DIR @ [archiveName config])"
    and "statSize (files st) (DOWNLOAD_DIR @ [archiveName config]) \<ge> 1024 * 1024"
  shows "\<exists>r st'. downloadAndExtractPlatform net extract v names platform config st = Some (r, st')
           \<and> r \<noteq> Pending \<and> requests st' = requests st"
proof -
  define archivePath where "archivePath = DOWNLOAD_DIR @ [archiveName config]"
  define extractDir where "extractDir = DOWNLOAD_DIR @ [''jdk-'' @ v @ ''-'' @ platform @ ''-temp'']"
  define finalDir where "finalDir = DOWNLOAD_DIR @ [''jdk-'' @ v @ ''-'' @ platform]"
  define st0 where "st0 = emit (platformLine names platform) st"
  have r0: "requests st0 = requests st" by (simp add: st0_def platformLine_def)
  from present_is_file[OF assms] obtain t n c where
    isfile: "map_of (files st0) archivePath = Some (File t n c)" and big: "n \<ge> 1024 * 1024"
    by (auto simp: archivePath_def st0_def)
  obtain res st1 where ve: "verifyExisting platform config finalDir st0 = (res, st1)"
    by (cases "verifyExisting platform config finalDir st0") auto
  have r1: "requests st1 = requests st"
    using verifyExisting_requests[of platform config finalDir st0] ve r0 by simp
  note unf = step_unfold[OF ve[unfolded finalDir_def st0_def], of net "extract",
      folded archivePath_def extractDir_def finalDir_def]
  show ?thesis
  proof (cases res)
    case (Inl e)
    with unf r1 show ?thesis by simp
  next
    case (Inr b)
    show ?thesis
    proof (cases b)
      case True
      with Inr unf r1 show ?thesis by simp
    next
      case False
      with Inr ve have ve': "verifyExisting platform config finalDir st0 = (Inr False, st1)" by simp
      have "length archivePath = length finalDir" by (simp add: archivePath_def finalDir_def)
      from verifyExisting_keeps_file[OF ve' isfile this]
      have "\<not> needsDownload (files st1) archivePath"
        using big by (rule file_not_needsDownload)
      then have fa: "fetchArchive net config archivePath st1 =
          Some (Fetched, emit (Log ''  [INFO] Archive already downloaded'') st1)"
        by (rule fetchArchive_present)
      have "requests (extractPlatform extract platform config archivePath extractDir finalDir
               (emit (Log ''  [INFO] Archive already downloaded'') st1)) = requests st"
        using r1 by (simp add: extractPlatform_requests)
      with Inr False unf fa show ?thesis by simp
    qed
  qed
qed

theorem archive_present_no_requests_witness:
  "\<exists>r st'. downloadAndExtractPlatform net_down no_extractor ''21'' [''linux-x64''] ''linux-x64''
              linux_x64_21 st_archive = Some (r, st')
           \<and> r \<noteq> Pending \<and> requests st' = []"
proof -
  have a: "archiveName linux_x64_21 = ''OpenJDK21U-jdk_x64_linux_hotspot_21.0.5_11.tar.gz''"
    by code_simp
  have e: "existsSync (files st_archive) (DOWNLOAD_DIR @ [archiveName linux_x64_21])"
    unfolding a by (simp add: st_archive_def DOWNLOAD_DIR_def existsSync_def)
  have s: "statSize (files st_archive) (DOWNLOAD_DIR @ [archiveName linux_x64_21]) \<ge> 1024 * 1024"
    unfolding a by (simp add: st_archive_def DOWNLOAD_DIR_def statSize_def)
  have r: "requests st_archive = []" by (simp add: st_archive_def requests_def)
  from archive_present_no_requests [OF e s, of net_down no_extractor "''21''" "[''linux-x64'']" "''linux-x64''"] r
  show ?thesis by simp
qed


subsection \<open>The loop over the platforms\<close>













section \<open>Properties of the batch runs\<close>

lemma grows_refl [simp]: "grows st st"
  by (simp add: grows_def)


lemma grows_emit [simp]: "grows st (emit e st)"
  by (simp add: grows_def emit_def)




















lemma obj_set_keys: "map fst (obj_set obj k v) = (if k \<in> set (map fst obj) then map fst obj else map fst obj @ [k])"
  by (auto simp: obj_set_def split_def)


















lemma files_log [simp]:
  "files (log_info m st) = files st"
  "files (log_error m st) = files st"
  "files (log_success m st) = files st"
  "files (log_header m st) = files st"
  "files (log_step m st) = files st"
  by (simp_all add: log_defs)










lemma runPackages_step:
  "runPackages arch jars (p # rest) acc st =
     runPackages arch jars rest
       (obj_set acc (targetName p)
          (case fst (createPortablePackage arch jars (fst p) (fst (snd p)) (snd (snd p)) st) of
             Inr ok \<Rightarrow> ok | Inl e \<Rightarrow> False))
       (case fst (createPortablePackage arch jars (fst p) (fst (snd p)) (snd (snd p)) st) of
          Inr ok \<Rightarrow> snd (createPortablePackage arch jars (fst p) (fst (snd p)) (snd (snd p)) st)
        | Inl e \<Rightarrow> log_error (''Failed to create '' @ targetName p)
                    (snd (createPortablePackage arch jars (fst p) (fst (snd p)) (snd (snd p)) st)))"
  by (cases "createPortablePackage arch jars (fst p) (fst (snd p)) (snd (snd p)) st";
      cases "fst (createPortablePackage arch jars (fst p) (fst (snd p)) (snd (snd p)) st)")
     simp_all





lemma runPackages_keys:
  "distinct (map fst acc @ map targetName ps) \<Longrightarrow>
     map fst (fst (runPackages arch jars ps acc st)) = map fst acc @ map targetName ps"
proof (induction ps arbitrary: acc st)
  case Nil
  then show ?case by simp
next
  case (Cons p ps)
  from Cons.prems have nin: "targetName p \<notin> set (map fst acc)" by auto
  have k: "map fst (obj_set acc (targetName p) x) = map fst acc @ [targetName p]" for x
    using nin by (simp add: obj_set_keys)
  from Cons.prems have d: "distinct (map fst (obj_set acc (targetName p) x) @ map targetName ps)" for x
    unfolding k by auto
  show ?case
    unfolding runPackages_step
    by (simp add: Cons.IH[OF d] k)
qed


lemma platforms_names:
  "map targetName platforms =
     [''windows-x64'', ''macos-x64'', ''macos-arm64'', ''linux-x64'', ''linux-arm64'']"
  by (simp add: platforms_def targetName_def)


lemma packageBatch_keys:
  "map fst (fst (packageBatch arch jars st)) =
     [''windows-x64'', ''macos-x64'', ''macos-arm64'', ''linux-x64'', ''linux-arm64'']"
proof -
  have "distinct (map fst ([] :: (string \<times> bool) list) @ map targetName platforms)"
    unfolding platforms_names by simp
  from runPackages_keys[OF this] show ?thesis
    unfolding packageBatch_def platforms_names by simp
qed


























text \<open>When the first download never settles, the run ends there: one request was sent,
  the part of the archive that arrived stays, the five platforms that remain are not
  attempted, and the exit status is 0.\<close>

lemma stalled_download_ends_run:
  "map_option (\<lambda>r. (fst r, length (requests (snd r)),
                    filter (\<lambda>e. case e of Log l \<Rightarrow> True | _ \<Rightarrow> False) (events (snd r)),
                    statSize (files (snd r))
                      (DOWNLOAD_DIR @ [''OpenJDK21U-jdk_x64_windows_hotspot_21.0.5_11.zip''])))
     (main_download net_stall no_extractor ''21'' st_empty)
   = Some (0, 1, [Log ''[1/6] windows-x64:'', Log ''  [INFO] Downloading...''], 4096)"
  by code_simp

text \<open>
  Claim C9. The claim asks that every stage iterates over the same six platform
  targets, and that the package assembler attempts a package for each of the six. The
  build script and the downloader have the six targets; the list of the package assembler
  has five, and \<open>windows-arm64\<close> is not among them, so an all-platforms run of the
  assembler records five outcomes and never attempts a package for Windows on ARM64.
\<close>

theorem assembler_has_five_targets:
  "map fst (builders jlink mods v) =
     [''windows-x64'', ''windows-arm64'', ''macos-x64'', ''macos-arm64'', ''linux-x64'', ''linux-arm64'']
   \<and> map_option (map fst) (getPlatformConfig ''21'') =
     Some [''windows-x64'', ''windows-arm64'', ''macos-x64'', ''macos-arm64'', ''linux-x64'', ''linux-arm64'']
   \<and> map targetName platforms =
     [''windows-x64'', ''macos-x64'', ''macos-arm64'', ''linux-x64'', ''linux-arm64'']
   \<and> ''windows-arm64'' \<notin> set (map targetName platforms)
   \<and> map fst (fst (packageBatch arch jars st)) =
     [''windows-x64'', ''macos-x64'', ''macos-arm64'', ''linux-x64'', ''linux-arm64'']"
proof -
  have a: "map fst (builders jlink mods v) =
     [''windows-x64'', ''windows-arm64'', ''macos-x64'', ''macos-arm64'', ''linux-x64'', ''linux-arm64'']"
    by (simp add: builders_def)
  have b: "map_option (map fst) (getPlatformConfig ''21'') =
     Some [''windows-x64'', ''windows-arm64'', ''macos-x64'', ''macos-arm64'', ''linux-x64'', ''linux-arm64'']"
    by (simp add: getPlatformConfig_def VERSION_CONFIG_def Let_def)
  have c: "''windows-arm64'' \<notin> set (map targetName platforms)"
    unfolding platforms_names by simp
  from a b c platforms_names packageBatch_keys show ?thesis by blast
qed

end
